theory Spec2Isabelle
  imports Complex_Main
begin

section \<open>Python strings and the regular expressions of the adapter\<close>

text \<open>
  A Python \<open>str\<close> is a sequence of Unicode code points, and \<open>re\<close> matches code point
  by code point, so a string is modelled as the list of its code points. The phrases the
  adapter looks for are Chinese; they are written here by code point, with the reading in
  the comment.
\<close>

type_synonym pystr = "nat list"

definition asc :: "string \<Rightarrow> pystr" where
  "asc s = map of_char s"

subsection \<open>The character tables of the interpreter\<close>

text \<open>
  On a \<open>str\<close>, \<open>\d\<close> is a decimal digit of Unicode (category Nd) and \<open>\s\<close> is a
  white space of Unicode; \<open>int\<close> reads the same digits and \<open>str.strip\<close> strips the
  same white space. The tables are those of Unicode 14.0 (CPython 3.11). The decimal
  digits come in runs of ten, in the order of their values; \<open>decimal_runs\<close> lists the
  first code point of each run.
\<close>

definition decimal_runs :: "nat list" where
  "decimal_runs =
     [48, 1632, 1776, 1984, 2406, 2534, 2662, 2790, 2918, 3046, 3174, 3302, 3430, 3558,
      3664, 3792, 3872, 4160, 4240, 6112, 6160, 6470, 6608, 6784, 6800, 6992, 7088, 7232,
      7248, 42528, 43216, 43264, 43472, 43504, 43600, 44016, 65296, 66720, 68912, 69734,
      69872, 69942, 70096, 70384, 70736, 70864, 71248, 71360, 71472, 71904, 72016, 72784,
      73040, 73120, 92768, 92864, 93008, 120782, 120792, 120802, 120812, 120822, 123200,
      123632, 125264, 130032]"

fun decimal_in :: "nat list \<Rightarrow> nat \<Rightarrow> nat option" where
  "decimal_in [] c = None"
| "decimal_in (s # ss) c = (if s \<le> c \<and> c < s + 10 then Some (c - s) else decimal_in ss c)"

text \<open>The value of a decimal digit, \<open>None\<close> for any other character.\<close>

definition decimal_value :: "nat \<Rightarrow> nat option" where
  "decimal_value c = decimal_in decimal_runs c"

definition whitespace :: "nat list" where
  "whitespace =
     [9, 10, 11, 12, 13, 28, 29, 30, 31, 32, 133, 160, 5760, 8192, 8193, 8194, 8195, 8196,
      8197, 8198, 8199, 8200, 8201, 8202, 8232, 8233, 8239, 8287, 12288]"

definition is_space :: "nat \<Rightarrow> bool" where
  "is_space c = (c \<in> set whitespace)"

datatype cclass = Digit | Space | Dot | ColonOrSpace

fun cls_ok :: "cclass \<Rightarrow> nat \<Rightarrow> bool" where
  "cls_ok Digit c = (decimal_value c \<noteq> None)"
| "cls_ok Space c = is_space c"
| "cls_ok Dot c = (c \<noteq> 10)"
| "cls_ok ColonOrSpace c = (c = 58 \<or> is_space c)"

text \<open>
  Under \<open>re.IGNORECASE\<close> a literal letter of the pattern matches its two cases and the
  characters Unicode folds to it: dotted capital I (U+0130) and dotless i (U+0131) for
  \<open>i\<close>, long s (U+017F) for \<open>s\<close>, the Kelvin sign (U+212A) for \<open>k\<close>. The literals
  of the patterns of the adapter are ASCII characters and Chinese characters, which have
  no case; \<open>lit_variants\<close> is the set of characters that match such a literal.
\<close>

definition lit_variants :: "nat \<Rightarrow> nat list" where
  "lit_variants c =
     (let lo = (if 65 \<le> c \<and> c \<le> 90 then c + 32 else c)
      in if 97 \<le> lo \<and> lo \<le> 122 then
           [lo - 32, lo] @ (if lo = 105 then [304, 305]
                            else if lo = 115 then [383]
                            else if lo = 107 then [8490]
                            else [])
         else [c])"

definition lit_matches :: "nat \<Rightarrow> nat \<Rightarrow> bool" where
  "lit_matches c x = (x \<in> set (lit_variants c))"

text \<open>
  Every pattern of the adapter is a sequence of literal characters, greedy stars of a
  class (\<open>\s*\<close>, \<open>[:\s]*\<close>), the lazy star \<open>.*?\<close> and captured digit runs
  \<open>(\d+)\<close>.
\<close>

datatype atom = Lit nat | Star cclass | LazyStar cclass | GroupPlus cclass

definition lits :: "pystr \<Rightarrow> atom list" where
  "lits s = map Lit s"

primrec first_some :: "('a \<Rightarrow> 'b option) \<Rightarrow> 'a list \<Rightarrow> 'b option" where
  "first_some f [] = None"
| "first_some f (x # xs) = (case f x of Some y \<Rightarrow> Some y | None \<Rightarrow> first_some f xs)"

lemma first_some_cong [fundef_cong]:
  "xs = ys \<Longrightarrow> (\<And>x. x \<in> set ys \<Longrightarrow> f x = g x) \<Longrightarrow> first_some f xs = first_some g ys"
  by (induction ys arbitrary: xs) (auto split: option.splits)

text \<open>
  The ways a repetition of a class can consume a prefix of the input: each prefix of the
  longest run of the class with the input left after it, the shortest first.
\<close>

fun splits_while :: "(nat \<Rightarrow> bool) \<Rightarrow> pystr \<Rightarrow> (pystr \<times> pystr) list" where
  "splits_while P [] = [([], [])]"
| "splits_while P (x # t) =
     ([], x # t) # (if P x then map (\<lambda>(a, b). (x # a, b)) (splits_while P t) else [])"

text \<open>
  The backtracking matcher, anchored at the start of the input: the captured groups and
  the rest of the input after the match. A greedy repetition tries the longest run
  first, a lazy one the shortest, as the \<open>re\<close> engine does; \<open>+\<close> leaves out the
  empty run.
\<close>

fun match_here :: "atom list \<Rightarrow> pystr \<Rightarrow> (pystr list \<times> pystr) option" where
  "match_here [] s = Some ([], s)"
| "match_here (Lit c # r) s =
     (case s of [] \<Rightarrow> None
      | x # t \<Rightarrow> if lit_matches c x then match_here r t else None)"
| "match_here (Star k # r) s =
     first_some (\<lambda>(a, rest). match_here r rest) (rev (splits_while (cls_ok k) s))"
| "match_here (LazyStar k # r) s =
     first_some (\<lambda>(a, rest). match_here r rest) (splits_while (cls_ok k) s)"
| "match_here (GroupPlus k # r) s =
     first_some (\<lambda>(a, rest). case match_here r rest of
                                None \<Rightarrow> None
                              | Some (gs, rest') \<Rightarrow> Some (a # gs, rest'))
       (rev (tl (splits_while (cls_ok k) s)))"

text \<open>\<open>re.search\<close>: the match at the leftmost position that has one; its groups.\<close>

fun re_search :: "atom list \<Rightarrow> pystr \<Rightarrow> pystr list option" where
  "re_search p [] = map_option fst (match_here p [])"
| "re_search p (x # t) =
     (case match_here p (x # t) of
        Some (gs, rest) \<Rightarrow> Some gs
      | None \<Rightarrow> re_search p t)"

text \<open>
  \<open>re.findall\<close>: the groups of the successive non-overlapping matches, left to right.
  The scan goes through the positions of the input; \<open>skip\<close> counts the positions still
  inside the previous match, where no match is attempted.
\<close>

fun findall_scan :: "atom list \<Rightarrow> nat \<Rightarrow> pystr \<Rightarrow> pystr list list" where
  "findall_scan p skip [] =
     (if 0 < skip then []
      else (case match_here p [] of Some (gs, rest) \<Rightarrow> [gs] | None \<Rightarrow> []))"
| "findall_scan p skip (x # t) =
     (if 0 < skip then findall_scan p (skip - 1) t
      else (case match_here p (x # t) of
              Some (gs, rest) \<Rightarrow> gs # findall_scan p (length t - length rest) t
            | None \<Rightarrow> findall_scan p 0 t))"

definition re_findall :: "atom list \<Rightarrow> pystr \<Rightarrow> pystr list list" where
  "re_findall p s = findall_scan p 0 s"

subsection \<open>\<open>int\<close> and the exceptions of arithmetic\<close>

text \<open>
  Exceptions are values. These are the ones the conversions and the divisions raise; all
  of them are caught by the handlers around their call.
\<close>

datatype num_exc = ValueError | OverflowError | ZeroDivisionError

text \<open>
  \<open>int(s)\<close> of a text: the text is a non-empty run of decimal digits of at most 4300
  characters (the limit of the interpreter on the conversion), or \<open>ValueError\<close> is
  raised.
\<close>

fun digits_value :: "nat \<Rightarrow> pystr \<Rightarrow> nat option" where
  "digits_value a [] = Some a"
| "digits_value a (c # cs) =
     (case decimal_value c of None \<Rightarrow> None | Some v \<Rightarrow> digits_value (10 * a + v) cs)"

definition py_int :: "pystr \<Rightarrow> num_exc + int" where
  "py_int ds =
     (if ds = [] \<or> 4300 < length ds then Inl ValueError
      else (case digits_value 0 ds of None \<Rightarrow> Inl ValueError | Some n \<Rightarrow> Inr (int n)))"

subsection \<open>The phrases\<close>

definition zh_gong_paqu :: pystr where \<comment> \<open>gong pa qu, "crawled in total"\<close>
  "zh_gong_paqu = [20849, 29228, 21462]"
definition zh_huoqu :: pystr where \<comment> \<open>huo qu, "fetched"\<close>
  "zh_huoqu = [33719, 21462]"
definition zh_tiao :: pystr where \<comment> \<open>tiao, the counter word for records\<close>
  "zh_tiao = [26465]"
definition zh_tiao_shuju :: pystr where \<comment> \<open>tiao shu ju, "records of data"\<close>
  "zh_tiao_shuju = [26465, 25968, 25454]"
definition zh_baocun :: pystr where \<comment> \<open>bao cun, "save"\<close>
  "zh_baocun = [20445, 23384]"
definition zh_wancheng :: pystr where \<comment> \<open>wan cheng, "finished"\<close>
  "zh_wancheng = [23436, 25104]"
definition zh_ge :: pystr where \<comment> \<open>ge, the general counter word\<close>
  "zh_ge = [20010]"

section \<open>The floats of the interpreter\<close>

text \<open>
  A float is an IEEE 754 binary64 number: a finite one is a rational \<open>k * 2 ^ e\<close> with
  \<open>k\<close> below \<open>2 ^ 53\<close> and \<open>e\<close> from \<open>-1074\<close>, and the result of an operation is the
  float nearest to the exact result, the one with the even \<open>k\<close> when two are as near.
\<close>

fun bit_length :: "nat \<Rightarrow> nat" where
  "bit_length n = (if n = 0 then 0 else Suc (bit_length (n div 2)))"

declare bit_length.simps [simp del]

text \<open>For a positive \<open>q\<close>, the \<open>e\<close> with \<open>2 ^ e \<le> q < 2 ^ (e + 1)\<close>.\<close>

definition binade :: "rat \<Rightarrow> int" where
  "binade q =
     (if 1 \<le> q then int (bit_length (nat \<lfloor>q\<rfloor>)) - 1
      else - int (bit_length (nat (\<lceil>1 / q\<rceil> - 1))))"

definition round_half_even :: "rat \<Rightarrow> int" where
  "round_half_even x =
     (let f = \<lfloor>x\<rfloor>; d = x - of_int f
      in if d < 1 / 2 then f else if 1 / 2 < d then f + 1 else if even f then f else f + 1)"

text \<open>The distance between the floats around a positive \<open>q\<close>.\<close>

definition ulp :: "rat \<Rightarrow> rat" where
  "ulp q = 2 powi (max (binade q - 52) (- 1074))"

definition round_pos :: "rat \<Rightarrow> rat" where
  "round_pos q = of_int (round_half_even (q / ulp q)) * ulp q"

definition round_double :: "rat \<Rightarrow> rat" where
  "round_double q = (if q = 0 then 0 else if 0 < q then round_pos q else - round_pos (- q))"

datatype pyfloat = Finite rat | PInf | NInf | NaN

text \<open>The float of an exact result: beyond the largest float it is an infinity.\<close>

definition to_float :: "rat \<Rightarrow> pyfloat" where
  "to_float q =
     (let r = round_double q
      in if 2 ^ 1024 \<le> r then PInf else if r \<le> - (2 ^ 1024) then NInf else Finite r)"

text \<open>
  \<open>a / b\<close> of two integers is the float nearest to the quotient, and
  \<open>OverflowError\<close> when that is no finite float; \<open>float(i)\<close> of an integer, which is
  how an integer enters an operation with a float, likewise.
\<close>

definition truediv :: "int \<Rightarrow> int \<Rightarrow> num_exc + rat" where
  "truediv a b =
     (if b = 0 then Inl ZeroDivisionError
      else (case to_float (of_int a / of_int b) of
              Finite r \<Rightarrow> Inr r
            | _ \<Rightarrow> Inl OverflowError))"

definition float_of_int :: "int \<Rightarrow> num_exc + rat" where
  "float_of_int i = (case to_float (of_int i) of Finite r \<Rightarrow> Inr r | _ \<Rightarrow> Inl OverflowError)"

fun fadd :: "pyfloat \<Rightarrow> pyfloat \<Rightarrow> pyfloat" where
  "fadd (Finite a) (Finite b) = to_float (a + b)"
| "fadd NaN y = NaN"
| "fadd x NaN = NaN"
| "fadd PInf NInf = NaN"
| "fadd NInf PInf = NaN"
| "fadd PInf y = PInf"
| "fadd NInf y = NInf"
| "fadd x PInf = PInf"
| "fadd x NInf = NInf"

fun fneg :: "pyfloat \<Rightarrow> pyfloat" where
  "fneg (Finite a) = Finite (- a)"
| "fneg PInf = NInf"
| "fneg NInf = PInf"
| "fneg NaN = NaN"

definition fsub :: "pyfloat \<Rightarrow> pyfloat \<Rightarrow> pyfloat" where
  "fsub x y = fadd x (fneg y)"

text \<open>The product of an infinity and a finite float, by the sign of the float.\<close>

definition inf_times :: "pyfloat \<Rightarrow> rat \<Rightarrow> pyfloat" where
  "inf_times i a = (if a = 0 then NaN else if 0 < a then i else fneg i)"

fun fmul :: "pyfloat \<Rightarrow> pyfloat \<Rightarrow> pyfloat" where
  "fmul (Finite a) (Finite b) = to_float (a * b)"
| "fmul NaN y = NaN"
| "fmul x NaN = NaN"
| "fmul (Finite a) y = inf_times y a"
| "fmul x (Finite b) = inf_times x b"
| "fmul PInf PInf = PInf"
| "fmul NInf NInf = PInf"
| "fmul x y = NInf"

text \<open>The quotient of a float by a finite float; by zero it raises.\<close>

fun fdiv :: "pyfloat \<Rightarrow> rat \<Rightarrow> num_exc + pyfloat" where
  "fdiv x d =
     (if d = 0 then Inl ZeroDivisionError
      else (case x of
              Finite a \<Rightarrow> Inr (to_float (a / d))
            | NaN \<Rightarrow> Inr NaN
            | i \<Rightarrow> Inr (if 0 < d then i else fneg i)))"

text \<open>\<open>x < y\<close> on floats; a comparison with a \<open>nan\<close> is false.\<close>

fun flt :: "pyfloat \<Rightarrow> pyfloat \<Rightarrow> bool" where
  "flt (Finite a) (Finite b) = (a < b)"
| "flt NaN y = False"
| "flt x NaN = False"
| "flt x NInf = False"
| "flt PInf y = False"
| "flt x y = True"

text \<open>\<open>min(x, y)\<close>: the first argument, unless the second is smaller.\<close>

definition py_min :: "pyfloat \<Rightarrow> pyfloat \<Rightarrow> pyfloat" where
  "py_min x y = (if flt y x then y else x)"

text \<open>\<open>int(x)\<close> of a float rounds towards zero, and raises for an infinity or a \<open>nan\<close>.\<close>

definition py_trunc :: "rat \<Rightarrow> int" where
  "py_trunc q = (if 0 \<le> q then \<lfloor>q\<rfloor> else \<lceil>q\<rceil>)"

definition int_of_float :: "pyfloat \<Rightarrow> num_exc + int" where
  "int_of_float x =
     (case x of
        Finite q \<Rightarrow> Inr (py_trunc q)
      | NaN \<Rightarrow> Inl ValueError
      | _ \<Rightarrow> Inl OverflowError)"

section \<open>The final item count: \<open>_parse_data_count_from_output\<close>\<close>

definition count_patterns :: "atom list list" where
  "count_patterns =
     [ lits zh_gong_paqu @ [Star Space, GroupPlus Digit, Star Space] @ lits zh_tiao,
       lits zh_huoqu @ [Star Space, GroupPlus Digit, Star Space] @ lits zh_tiao_shuju,
       lits (asc ''crawled'') @ [Star Space, GroupPlus Digit, Star Space] @ lits (asc ''items''),
       lits (asc ''total'') @ [Star ColonOrSpace, GroupPlus Digit],
       lits zh_baocun @ [LazyStar Dot, GroupPlus Digit, Star Space] @ lits zh_tiao,
       lits zh_wancheng @ [LazyStar Dot, GroupPlus Digit, Star Space] @ lits zh_ge ]"

text \<open>
  With one group in the pattern, \<open>re.findall\<close> gives the list of the texts of that
  group. The loop returns at the first pattern that has a match, with the largest of its
  numbers; \<open>0\<close> when no pattern matches, and \<open>0\<close> from the handler of the function
  when a conversion raises.
\<close>

definition group1 :: "pystr list \<Rightarrow> pystr" where
  "group1 gs = (case gs of [] \<Rightarrow> [] | g # _ \<Rightarrow> g)"

fun max_list :: "int list \<Rightarrow> int" where
  "max_list [] = 0"
| "max_list [x] = x"
| "max_list (x # y # ys) = max x (max_list (y # ys))"

fun ints_of :: "pystr list \<Rightarrow> num_exc + int list" where
  "ints_of [] = Inr []"
| "ints_of (g # gs) =
     (case py_int g of
        Inl e \<Rightarrow> Inl e
      | Inr n \<Rightarrow> (case ints_of gs of Inl e \<Rightarrow> Inl e | Inr ns \<Rightarrow> Inr (n # ns)))"

fun parse_count_loop :: "atom list list \<Rightarrow> pystr \<Rightarrow> int" where
  "parse_count_loop [] output = 0"
| "parse_count_loop (p # ps) output =
     (let matches = map group1 (re_findall p output)
      in if matches \<noteq> [] then
           (case ints_of matches of Inl e \<Rightarrow> 0 | Inr ns \<Rightarrow> max_list ns)
         else parse_count_loop ps output)"

definition parse_data_count_from_output :: "pystr \<Rightarrow> int" where
  "parse_data_count_from_output output = parse_count_loop count_patterns output"

section \<open>The event journal: \<open>TaskLogger\<close>\<close>

datatype task_event_type =
  TASK_CREATED | TASK_STARTED | TASK_PROGRESS | TASK_COMPLETED | TASK_FAILED
| TASK_STOPPED | CRAWLER_LOGIN | CRAWLER_ERROR | DATA_EXTRACTED | DATA_SAVED

record task_progress =
  current_stage :: string
  progress_percent :: rat
  items_total :: int
  items_completed :: int
  items_failed :: int
  current_item :: "pystr option"
  estimated_remaining_time :: "int option"
  last_update :: rat

text \<open>
  An event keeps its type, the clock reading and the copy of the progress snapshot taken
  by \<open>asdict\<close>; the text of its message is not modelled.
\<close>

record task_event =
  event_type :: task_event_type
  timestamp :: rat
  snapshot :: task_progress

record task_logger =
  tl_task_id :: string
  tl_platform :: string
  events :: "task_event list"
  progress :: task_progress
  start_time :: rat

definition TaskLogger_init :: "rat \<Rightarrow> string \<Rightarrow> string \<Rightarrow> task_logger" where
  "TaskLogger_init now tid platform =
     \<lparr> tl_task_id = tid, tl_platform = platform, events = [],
       progress = \<lparr> current_stage = ''initializing'', progress_percent = 0,
                    items_total = 0, items_completed = 0, items_failed = 0,
                    current_item = None, estimated_remaining_time = None,
                    last_update = now \<rparr>,
       start_time = now \<rparr>"

definition log_event :: "rat \<Rightarrow> task_event_type \<Rightarrow> task_logger \<Rightarrow> task_logger" where
  "log_event now ty l =
     l\<lparr> events := events l @
          [\<lparr> event_type = ty, timestamp = now, snapshot = progress l \<rparr>] \<rparr>"

text \<open>
  The estimate of the remaining time: \<open>elapsed_time\<close> is the difference of two clock
  readings, \<open>avg_time_per_item\<close> its quotient by the completed count and the estimate
  the integer part of the product with the remaining count, all in floats. An integer
  that no float holds, and an infinite product, raise.
\<close>

definition remaining_time :: "rat \<Rightarrow> rat \<Rightarrow> int \<Rightarrow> int \<Rightarrow> num_exc + int" where
  "remaining_time now start n_total n_completed =
     (let elapsed_time = fsub (Finite now) (Finite start)
      in case float_of_int n_completed of
           Inl e \<Rightarrow> Inl e
         | Inr c \<Rightarrow>
             (case fdiv elapsed_time c of
                Inl e \<Rightarrow> Inl e
              | Inr avg_time_per_item \<Rightarrow>
                  (case float_of_int (n_total - n_completed) of
                     Inl e \<Rightarrow> Inl e
                   | Inr remaining_items \<Rightarrow>
                       int_of_float (fmul avg_time_per_item (Finite remaining_items)))))"

text \<open>
  \<open>update_progress\<close>: every argument is optional; the stage and the current item are
  taken when they are non-empty, the numbers when they are not \<open>None\<close>. The percentage
  is stored as it is given. \<open>update_fields\<close> is the snapshot after the assignments.
\<close>

definition update_fields ::
  "rat \<Rightarrow> string option \<Rightarrow> rat option \<Rightarrow> int option \<Rightarrow> int option \<Rightarrow> int option
     \<Rightarrow> pystr option \<Rightarrow> task_progress \<Rightarrow> task_progress" where
  "update_fields now stage percent n_total n_completed n_failed item p0 =
     (let p1 = (case stage of Some s \<Rightarrow> if s \<noteq> [] then p0\<lparr>current_stage := s\<rparr> else p0
                | None \<Rightarrow> p0);
          p2 = (case percent of Some v \<Rightarrow> p1\<lparr>progress_percent := v\<rparr> | None \<Rightarrow> p1);
          p3 = (case n_total of Some n \<Rightarrow> p2\<lparr>items_total := n\<rparr> | None \<Rightarrow> p2);
          p4 = (case n_completed of Some n \<Rightarrow> p3\<lparr>items_completed := n\<rparr> | None \<Rightarrow> p3);
          p5 = (case n_failed of Some n \<Rightarrow> p4\<lparr>items_failed := n\<rparr> | None \<Rightarrow> p4);
          p6 = (case item of Some i \<Rightarrow> if i \<noteq> [] then p5\<lparr>current_item := Some i\<rparr> else p5
                | None \<Rightarrow> p5)
      in p6\<lparr>last_update := now\<rparr>)"

text \<open>
  The estimate is computed when both counts are positive. When it raises, the
  assignments stay, no event is recorded, and the exception leaves the method:
  \<open>update_progress\<close> is the journal after the call either way, and
  \<open>update_progress_raises\<close> the exception, if any.
\<close>

definition estimate ::
  "rat \<Rightarrow> rat \<Rightarrow> task_progress \<Rightarrow> num_exc + task_progress" where
  "estimate now start p =
     (if 0 < items_total p \<and> 0 < items_completed p
      then (case remaining_time now start (items_total p) (items_completed p) of
              Inl e \<Rightarrow> Inl e
            | Inr t \<Rightarrow> Inr (p\<lparr>estimated_remaining_time := Some t\<rparr>))
      else Inr p)"

definition update_progress ::
  "rat \<Rightarrow> string option \<Rightarrow> rat option \<Rightarrow> int option \<Rightarrow> int option \<Rightarrow> int option
     \<Rightarrow> pystr option \<Rightarrow> task_logger \<Rightarrow> task_logger" where
  "update_progress now stage percent n_total n_completed n_failed item l =
     (let p = update_fields now stage percent n_total n_completed n_failed item (progress l)
      in case estimate now (start_time l) p of
           Inl e \<Rightarrow> l\<lparr>progress := p\<rparr>
         | Inr p' \<Rightarrow> log_event now TASK_PROGRESS (l\<lparr>progress := p'\<rparr>))"

definition update_progress_raises ::
  "rat \<Rightarrow> string option \<Rightarrow> rat option \<Rightarrow> int option \<Rightarrow> int option \<Rightarrow> int option
     \<Rightarrow> pystr option \<Rightarrow> task_logger \<Rightarrow> num_exc option" where
  "update_progress_raises now stage percent n_total n_completed n_failed item l =
     (let p = update_fields now stage percent n_total n_completed n_failed item (progress l)
      in case estimate now (start_time l) p of Inl e \<Rightarrow> Some e | Inr p' \<Rightarrow> None)"

section \<open>Progress from a line of output: \<open>_parse_progress_from_line\<close>\<close>

definition zh_kaishi_denglu :: pystr where \<comment> \<open>kai shi deng lu, "login starts"\<close>
  "zh_kaishi_denglu = [24320, 22987, 30331, 24405]"
definition zh_denglu_chenggong :: pystr where \<comment> \<open>deng lu cheng gong, "login succeeded"\<close>
  "zh_denglu_chenggong = [30331, 24405, 25104, 21151]"
definition zh_saoma_denglu :: pystr where \<comment> \<open>sao ma deng lu, "login by scanning"\<close>
  "zh_saoma_denglu = [25195, 30721, 30331, 24405]"
definition zh_shouji_denglu :: pystr where \<comment> \<open>shou ji deng lu, "login by phone"\<close>
  "zh_shouji_denglu = [25163, 26426, 30331, 24405]"
definition zh_kaishi_paqu :: pystr where \<comment> \<open>kai shi pa qu, "crawl starts"\<close>
  "zh_kaishi_paqu = [24320, 22987, 29228, 21462]"
definition zh_zhengzai_paqu_di :: pystr where \<comment> \<open>zheng zai pa qu di, "crawling number"\<close>
  "zh_zhengzai_paqu_di = [27491, 22312, 29228, 21462, 31532]"
definition zh_ye :: pystr where \<comment> \<open>ye, "page"\<close>
  "zh_ye = [39029]"
definition zh_yi_paqu :: pystr where \<comment> \<open>yi pa qu, "crawled so far"\<close>
  "zh_yi_paqu = [24050, 29228, 21462]"
definition zh_paqu :: pystr where \<comment> \<open>pa qu, "crawl"\<close>
  "zh_paqu = [29228, 21462]"
definition zh_gong :: pystr where \<comment> \<open>gong, "in total"\<close>
  "zh_gong = [20849]"
definition zh_kaishi_baocun :: pystr where \<comment> \<open>kai shi bao cun, "saving starts"\<close>
  "zh_kaishi_baocun = [24320, 22987, 20445, 23384]"
definition zh_baocun_wancheng :: pystr where \<comment> \<open>bao cun wan cheng, "saving finished"\<close>
  "zh_baocun_wancheng = [20445, 23384, 23436, 25104]"
definition zh_cuowu :: pystr where \<comment> \<open>cuo wu, "error"\<close>
  "zh_cuowu = [38169, 35823]"
definition zh_shibai :: pystr where \<comment> \<open>shi bai, "failed"\<close>
  "zh_shibai = [22833, 36133]"
definition zh_yichang :: pystr where \<comment> \<open>yi chang, "exception"\<close>
  "zh_yichang = [24322, 24120]"
definition zh_kaishi :: pystr where \<comment> \<open>kai shi, "start"\<close>
  "zh_kaishi = [24320, 22987]"
definition zh_chenggong :: pystr where \<comment> \<open>cheng gong, "success"\<close>
  "zh_chenggong = [25104, 21151]"
definition zh_guanjianci :: pystr where \<comment> \<open>guan jian ci, "keyword"\<close>
  "zh_guanjianci = [20851, 38190, 35789]"
definition zh_yonghu :: pystr where \<comment> \<open>yong hu, "user"\<close>
  "zh_yonghu = [29992, 25143]"
definition zh_neirong :: pystr where \<comment> \<open>nei rong, "content"\<close>
  "zh_neirong = [20869, 23481]"

definition login_patterns :: "(atom list \<times> string \<times> rat) list" where
  "login_patterns =
     [ (lits zh_kaishi_denglu, ''logging_in'', 20),
       (lits zh_denglu_chenggong, ''logged_in'', 30),
       (lits zh_saoma_denglu, ''qrcode_login'', 25),
       (lits zh_shouji_denglu, ''phone_login'', 25) ]"

definition start_crawl_pattern :: "atom list" where
  "start_crawl_pattern = lits zh_kaishi_paqu"

definition page_pattern :: "atom list" where
  "page_pattern = lits zh_zhengzai_paqu_di @ [Star Space, GroupPlus Digit, Star Space] @ lits zh_ye"

definition ratio_pattern :: "atom list" where
  "ratio_pattern =
     lits zh_yi_paqu @ [Star Space, GroupPlus Digit, Star Space, Lit 47, Star Space,
                        GroupPlus Digit]"

definition count_of_total_pattern :: "atom list" where
  "count_of_total_pattern =
     lits zh_paqu @ [LazyStar Dot, GroupPlus Digit, Star Space] @ lits zh_tiao
       @ [LazyStar Dot] @ lits zh_gong @ [Star Space, GroupPlus Digit]"

definition crawl_patterns :: "(atom list \<times> string \<times> rat option) list" where
  "crawl_patterns =
     [ (start_crawl_pattern, ''crawling'', Some 40),
       (page_pattern, ''crawling'', None),
       (ratio_pattern, ''crawling'', None),
       (count_of_total_pattern, ''crawling'', None) ]"

definition save_patterns :: "(atom list \<times> string \<times> rat) list" where
  "save_patterns =
     [ (lits zh_kaishi_baocun, ''saving'', 90),
       (lits zh_baocun @ [LazyStar Dot, GroupPlus Digit, Star Space] @ lits zh_tiao,
          ''saving'', 95),
       (lits zh_baocun_wancheng, ''completed'', 100) ]"

definition error_patterns :: "atom list list" where
  "error_patterns =
     [ lits zh_cuowu, lits zh_shibai, lits zh_yichang,
       lits (asc ''Error''), lits (asc ''Exception'') ]"

definition important_patterns :: "atom list list" where
  "important_patterns =
     [ lits zh_kaishi, lits zh_wancheng, lits zh_chenggong,
       lits zh_guanjianci, lits zh_yonghu, lits zh_neirong ]"

text \<open>
  \<open>"..." in pattern\<close> tests the text of the pattern; none of the patterns escapes a
  character of the phrase, so the phrase is in the text when its literals are
  consecutive atoms.
\<close>

fun contains :: "'a list \<Rightarrow> 'a list \<Rightarrow> bool" where
  "contains sub [] = (sub = [])"
| "contains sub (x # xs) = (take (length sub) (x # xs) = sub \<or> contains sub xs)"

text \<open>
  Each loop of the source returns from the function at its first pattern that matches.
  A loop of the model gives \<open>Some\<close> journal when the function returned in it, and
  \<open>None\<close> when it fell through to the next loop.
\<close>

fun login_loop ::
  "rat \<Rightarrow> pystr \<Rightarrow> (atom list \<times> string \<times> rat) list \<Rightarrow> task_logger \<Rightarrow> task_logger option" where
  "login_loop now line [] l = None"
| "login_loop now line ((pattern, stage, percent) # ps) l =
     (case re_search pattern line of
        Some gs \<Rightarrow> Some (update_progress now (Some stage) (Some percent) None None None None l)
      | None \<Rightarrow> login_loop now line ps l)"

text \<open>
  The percentage of the ratio phrase, \<open>min(40.0 + (completed / total) * 50.0, 90.0)\<close>,
  from the float of the quotient. The quotient of two counts is not negative, and then
  the minimum is a finite float from 0 to 90.
\<close>

definition ratio_percent :: "rat \<Rightarrow> pyfloat" where
  "ratio_percent r = py_min (fadd (Finite 40) (fmul (Finite r) (Finite 50))) (Finite 90)"

text \<open>
  The body of the crawl loop for a pattern that matched. A conversion or a division that
  raises leaves the function through its handler, which ignores the exception: nothing
  is updated.
\<close>

definition crawl_update ::
  "rat \<Rightarrow> atom list \<Rightarrow> string \<Rightarrow> rat option \<Rightarrow> pystr list \<Rightarrow> task_logger \<Rightarrow> task_logger" where
  "crawl_update now pattern stage percent gs l =
     (case percent of
        Some v \<Rightarrow> update_progress now (Some stage) (Some v) None None None None l
      | None \<Rightarrow>
          (case gs of
             g1 # g2 # _ \<Rightarrow>
               if contains (lits zh_yi_paqu) pattern then
                 (case py_int g1 of
                    Inl e \<Rightarrow> l
                  | Inr n_completed \<Rightarrow>
                      (case py_int g2 of
                         Inl e \<Rightarrow> l
                       | Inr n_total \<Rightarrow>
                           if 0 < n_total then
                             (case truediv n_completed n_total of
                                Inl e \<Rightarrow> l
                              | Inr r \<Rightarrow>
                                  (case ratio_percent r of
                                     Finite v \<Rightarrow>
                                       update_progress now (Some stage) (Some v)
                                         (Some n_total) (Some n_completed) None None l
                                   | _ \<Rightarrow> l))
                           else l))
               else l
           | _ \<Rightarrow> l))"

fun crawl_loop ::
  "rat \<Rightarrow> pystr \<Rightarrow> (atom list \<times> string \<times> rat option) list \<Rightarrow> task_logger
     \<Rightarrow> task_logger option" where
  "crawl_loop now line [] l = None"
| "crawl_loop now line ((pattern, stage, percent) # ps) l =
     (case re_search pattern line of
        Some gs \<Rightarrow> Some (crawl_update now pattern stage percent gs l)
      | None \<Rightarrow> crawl_loop now line ps l)"

text \<open>
  The body of the save loop for a pattern that matched: the stage and the percentage are
  set, and then, when the pattern has a group, the completed count, inside a
  \<open>try\<close> that ignores every exception. An exception of the first call leaves the
  function before the second.
\<close>

definition save_update ::
  "rat \<Rightarrow> string \<Rightarrow> rat \<Rightarrow> pystr list \<Rightarrow> task_logger \<Rightarrow> task_logger" where
  "save_update now stage percent gs l =
     (let l1 = update_progress now (Some stage) (Some percent) None None None None l
      in case update_progress_raises now (Some stage) (Some percent) None None None None l of
           Some e \<Rightarrow> l1
         | None \<Rightarrow>
             (case gs of
                [] \<Rightarrow> l1
              | g1 # _ \<Rightarrow>
                  (case py_int g1 of
                     Inl e \<Rightarrow> l1
                   | Inr saved_count \<Rightarrow>
                       update_progress now (Some stage) (Some percent) None
                         (Some saved_count) None None l1)))"

fun save_loop ::
  "rat \<Rightarrow> pystr \<Rightarrow> (atom list \<times> string \<times> rat) list \<Rightarrow> task_logger \<Rightarrow> task_logger option" where
  "save_loop now line [] l = None"
| "save_loop now line ((pattern, stage, percent) # ps) l =
     (case re_search pattern line of
        Some gs \<Rightarrow> Some (save_update now stage percent gs l)
      | None \<Rightarrow> save_loop now line ps l)"

fun event_loop ::
  "rat \<Rightarrow> pystr \<Rightarrow> task_event_type \<Rightarrow> atom list list \<Rightarrow> task_logger \<Rightarrow> task_logger option" where
  "event_loop now line ty [] l = None"
| "event_loop now line ty (pattern # ps) l =
     (case re_search pattern line of
        Some gs \<Rightarrow> Some (log_event now ty l)
      | None \<Rightarrow> event_loop now line ty ps l)"

definition parse_progress_from_line :: "rat \<Rightarrow> pystr \<Rightarrow> task_logger \<Rightarrow> task_logger" where
  "parse_progress_from_line now line l =
     (case login_loop now line login_patterns l of
        Some l' \<Rightarrow> l'
      | None \<Rightarrow>
     (case crawl_loop now line crawl_patterns l of
        Some l' \<Rightarrow> l'
      | None \<Rightarrow>
     (case save_loop now line save_patterns l of
        Some l' \<Rightarrow> l'
      | None \<Rightarrow>
     (case event_loop now line CRAWLER_ERROR error_patterns l of
        Some l' \<Rightarrow> l'
      | None \<Rightarrow>
     (case event_loop now line TASK_PROGRESS important_patterns l of
        Some l' \<Rightarrow> l'
      | None \<Rightarrow> l)))))"

section \<open>The credential cache: \<open>CookiesManager\<close>\<close>

text \<open>
  One JSON file per platform. \<open>save_cookies\<close> writes every key; a file from elsewhere
  may lack \<open>saved_time\<close> (read with the default \<open>0\<close>) or \<open>cookies\<close> (read as
  \<open>None\<close>, as a JSON \<open>null\<close> is), or may not parse at all.
\<close>

record cookies_data =
  cd_platform :: string
  cookies :: "pystr option"
  cd_task_id :: "string option"
  saved_time :: "int option"

datatype cookies_file = Unreadable | Json cookies_data

type_synonym cookies_dir = "string \<rightharpoonup> cookies_file"

text \<open>
  \<open>save_cookies\<close>, with \<open>current_time\<close> the reading \<open>int(time.time())\<close>; the write
  replaces the file of the platform.
\<close>

definition save_cookies ::
  "int \<Rightarrow> string \<Rightarrow> pystr \<Rightarrow> string option \<Rightarrow> cookies_dir \<Rightarrow> bool \<times> cookies_dir" where
  "save_cookies current_time platform cs tid dir =
     (True, dir(platform \<mapsto> Json \<lparr> cd_platform = platform, cookies = Some cs,
                                     cd_task_id = tid, saved_time = Some current_time \<rparr>))"

text \<open>
  The age of an entry in days, as the exact number: the seconds from \<open>saved_time\<close>
  (\<open>0\<close> when the key is missing) to \<open>current_time\<close>, over the seconds of a day.
\<close>

definition age_days :: "int \<Rightarrow> cookies_data \<Rightarrow> rat" where
  "age_days current_time d =
     of_int (current_time - (case saved_time d of Some t \<Rightarrow> t | None \<Rightarrow> 0)) / (24 * 3600)"

text \<open>
  \<open>load_cookies\<close> computes the age as the float \<open>(current_time - saved_time) / (24 *
  3600)\<close> and compares it with \<open>max_age_days\<close>; the entry is dropped when the float is
  greater. A blob that is \<open>None\<close> or empty is not returned. The handler of the function
  returns \<open>None\<close> for every exception, so also when the quotient is no finite float.
\<close>

definition load_cookies :: "int \<Rightarrow> string \<Rightarrow> int \<Rightarrow> cookies_dir \<Rightarrow> pystr option" where
  "load_cookies current_time platform max_age_days dir =
     (case dir platform of
        None \<Rightarrow> None
      | Some Unreadable \<Rightarrow> None
      | Some (Json d) \<Rightarrow>
          (let saved = (case saved_time d of Some t \<Rightarrow> t | None \<Rightarrow> 0)
           in case truediv (current_time - saved) (24 * 3600) of
                Inl e \<Rightarrow> None
              | Inr age \<Rightarrow>
                  if age > of_int max_age_days then None
                  else (case cookies d of
                          Some c \<Rightarrow> if c \<noteq> [] then Some c else None
                        | None \<Rightarrow> None)))"

definition clear_cookies :: "string option \<Rightarrow> cookies_dir \<Rightarrow> bool \<times> cookies_dir" where
  "clear_cookies platform dir =
     (case platform of
        Some p \<Rightarrow> if p \<noteq> [] then (True, dir(p := None)) else (True, Map.empty)
      | None \<Rightarrow> (True, Map.empty))"

section \<open>Login sessions: \<open>LoginManager\<close>\<close>

datatype login_type = COOKIE | QRCODE | PHONE

datatype login_status =
  PENDING | QRCODE_GENERATED | QRCODE_SCANNED | PHONE_INPUT_REQUIRED
| VERIFICATION_CODE_REQUIRED | SUCCESS | FAILED | TIMEOUT

datatype pyval = PBool bool | PInt int | PStr pystr | PList "pyval list"

text \<open>
  A session keeps the identity of the job, the platform, the login mode, the status, the
  time of creation, the timeout, the data dictionary and the captured credentials. The
  browser handles are present or not; the callbacks only write to the log.
\<close>

record login_session =
  ls_task_id :: string
  ls_platform :: string
  ls_login_type :: login_type
  status :: login_status
  ls_start_time :: rat
  timeout :: int
  data :: "string \<rightharpoonup> pyval"
  pending_inputs :: "string list"
  page :: bool
  browser :: bool
  browser_context :: bool
  cookies_data :: "pystr option"

definition LoginSession_init :: "rat \<Rightarrow> string \<Rightarrow> string \<Rightarrow> login_type \<Rightarrow> login_session" where
  "LoginSession_init now tid platform lt =
     \<lparr> ls_task_id = tid, ls_platform = platform, ls_login_type = lt, status = PENDING,
       ls_start_time = now, timeout = 300, data = Map.empty, pending_inputs = [],
       page = False, browser = False, browser_context = False, cookies_data = None \<rparr>"

definition is_expired :: "rat \<Rightarrow> login_session \<Rightarrow> bool" where
  "is_expired now s = (now - ls_start_time s > of_int (timeout s))"

definition update_status ::
  "login_status \<Rightarrow> (string \<rightharpoonup> pyval) option \<Rightarrow> login_session \<Rightarrow> login_session" where
  "update_status st d s =
     s\<lparr> status := st, data := data s ++ (case d of Some m \<Rightarrow> m | None \<Rightarrow> Map.empty) \<rparr>"

record login_manager =
  sessions :: "string \<rightharpoonup> login_session"

text \<open>\<open>LoginManager.create_login_session\<close>: the new session is stored under the job id.\<close>

definition create_login_session ::
  "rat \<Rightarrow> string \<Rightarrow> string \<Rightarrow> login_type \<Rightarrow> int \<Rightarrow> login_manager
     \<Rightarrow> login_session \<times> login_manager" where
  "create_login_session now tid platform lt tmo m =
     (let session = (LoginSession_init now tid platform lt)\<lparr>timeout := tmo\<rparr>
      in (session, m\<lparr>sessions := (sessions m)(tid \<mapsto> session)\<rparr>))"

definition get_login_session :: "string \<Rightarrow> login_manager \<Rightarrow> login_session option" where
  "get_login_session tid m = sessions m tid"

text \<open>
  The endpoint \<open>POST /api/v1/login/create-session\<close> of \<open>api/login.py\<close>. The
  \<open>HTTPException\<close> of an unknown login type is raised inside the \<open>try\<close> whose handler
  catches every \<open>Exception\<close>, so it leaves as status 500.
\<close>

record create_login_session_request =
  rq_task_id :: string
  rq_platform :: string
  rq_login_type :: string
  rq_timeout :: int
  rq_cookies :: "pystr option"

record create_login_session_response =
  rs_success :: bool
  rs_task_id :: string
  session_created :: bool

datatype 'a http_result = HTTPException nat | Response 'a

definition LoginType_of :: "string \<Rightarrow> login_type option" where
  "LoginType_of v =
     (if v = ''cookie'' then Some COOKIE
      else if v = ''qrcode'' then Some QRCODE
      else if v = ''phone'' then Some PHONE
      else None)"

definition create_login_session_endpoint ::
  "rat \<Rightarrow> create_login_session_request \<Rightarrow> login_manager
     \<Rightarrow> create_login_session_response http_result \<times> login_manager" where
  "create_login_session_endpoint now request m =
     (case LoginType_of (rq_login_type request) of
        None \<Rightarrow> (HTTPException 500, m)
      | Some lt \<Rightarrow>
          (case get_login_session (rq_task_id request) m of
             Some existing_session \<Rightarrow>
               (Response \<lparr> rs_success = False, rs_task_id = rq_task_id request,
                            session_created = False \<rparr>, m)
           | None \<Rightarrow>
               (let (session, m1) =
                      create_login_session now (rq_task_id request) (rq_platform request)
                        lt (rq_timeout request) m;
                    session' =
                      (case rq_cookies request of
                         Some c \<Rightarrow>
                           if lt = COOKIE \<and> c \<noteq> []
                           then session\<lparr>data := (data session)(''cookies'' \<mapsto> PStr c)\<rparr>
                           else session
                       | None \<Rightarrow> session)
                in (Response \<lparr> rs_success = True, rs_task_id = rq_task_id request,
                               session_created = True \<rparr>,
                    m1\<lparr>sessions := (sessions m1)(rq_task_id request \<mapsto> session')\<rparr>))))"

text \<open>\<open>LoginManager.get_login_status\<close>, with \<open>now\<close> the reading of the clock.\<close>

record login_response =
  lr_task_id :: string
  lr_status :: login_status
  lr_data :: "(string \<rightharpoonup> pyval) option"

definition get_login_status ::
  "rat \<Rightarrow> string \<Rightarrow> login_manager \<Rightarrow> login_response \<times> login_manager" where
  "get_login_status now tid m =
     (case get_login_session tid m of
        None \<Rightarrow> (\<lparr> lr_task_id = tid, lr_status = FAILED, lr_data = None \<rparr>, m)
      | Some session \<Rightarrow>
          (let session' = (if is_expired now session
                           then update_status TIMEOUT None session else session)
           in (\<lparr> lr_task_id = tid, lr_status = status session',
                 lr_data = Some (data session') \<rparr>,
               m\<lparr>sessions := (sessions m)(tid \<mapsto> session')\<rparr>)))"

subsection \<open>The background monitor of a qrcode session: \<open>_monitor_client_login\<close>\<close>

record cookie =
  ck_name :: string
  ck_value :: string
  ck_domain :: "string option"
  ck_path :: "string option"

fun web_session_of :: "cookie list \<Rightarrow> string option" where
  "web_session_of [] = None"
| "web_session_of (c # cs) =
     (if ck_name c = ''web_session'' then Some (ck_value c) else web_session_of cs)"

definition cookie_str :: "cookie \<Rightarrow> string" where
  "cookie_str c =
     ck_name c @ ''='' @ ck_value c
       @ (case ck_domain c of Some d \<Rightarrow> if d \<noteq> [] then ''; Domain='' @ d else [] | None \<Rightarrow> [])
       @ (case ck_path c of Some q \<Rightarrow> if q \<noteq> [] then ''; Path='' @ q else [] | None \<Rightarrow> [])"

fun join :: "'a list \<Rightarrow> 'a list list \<Rightarrow> 'a list" where
  "join sep [] = []"
| "join sep [x] = x"
| "join sep (x # y # ys) = x @ sep @ join sep (y # ys)"

definition extract_cookies :: "login_session \<Rightarrow> cookie list \<Rightarrow> pystr option" where
  "extract_cookies s cs =
     (if page s \<and> browser_context s then Some (asc (join ''; '' (map cookie_str cs)))
      else None)"

definition save_login_cookies :: "string \<Rightarrow> pystr \<Rightarrow> login_manager \<Rightarrow> bool \<times> login_manager" where
  "save_login_cookies tid cs m =
     (case get_login_session tid m of
        None \<Rightarrow> (False, m)
      | Some session \<Rightarrow>
          (True, m\<lparr>sessions := (sessions m)
                   (tid \<mapsto> update_status SUCCESS None (session\<lparr>cookies_data := Some cs\<rparr>))\<rparr>))"

text \<open>
  The monitor reads the cookies of the browser context once before its loop and once in
  every round, and \<open>_extract_cookies\<close> reads them once more when a login is
  detected; \<open>cookies_at k\<close> is what read number \<open>k\<close> returns. A round ends with
  \<open>asyncio.sleep(2)\<close>: the clock of the model moves by the two seconds of the sleep,
  and nothing else touches the session table while the monitor runs. The bound of the
  loop is the local \<open>timeout = 300\<close>, counted from the start of the monitor.
\<close>

definition login_detected :: "string option \<Rightarrow> string option \<Rightarrow> bool" where
  "login_detected initial_web_session current_web_session =
     (case current_web_session of
        None \<Rightarrow> False
      | Some v \<Rightarrow> v \<noteq> [] \<and> current_web_session \<noteq> initial_web_session)"

definition monitor_success :: "string \<Rightarrow> cookie list \<Rightarrow> login_manager \<Rightarrow> login_manager" where
  "monitor_success tid cs m =
     (case sessions m tid of
        None \<Rightarrow> m
      | Some session \<Rightarrow>
          (let m1 = (case extract_cookies session cs of
                       Some c \<Rightarrow>
                         if c \<noteq> []
                         then snd (save_login_cookies tid c
                                (m\<lparr>sessions := (sessions m)
                                    (tid \<mapsto> session\<lparr>cookies_data := Some c\<rparr>)\<rparr>))
                         else m
                     | None \<Rightarrow> m)
           in (case sessions m1 tid of
                 None \<Rightarrow> m1
               | Some s1 \<Rightarrow>
                   m1\<lparr>sessions := (sessions m1)(tid \<mapsto> update_status SUCCESS None s1)\<rparr>)))"

function monitor_loop ::
  "rat \<Rightarrow> string option \<Rightarrow> (nat \<Rightarrow> cookie list) \<Rightarrow> string \<Rightarrow> nat \<Rightarrow> rat \<Rightarrow> login_manager
     \<Rightarrow> login_manager \<times> rat" where
  "monitor_loop start initial_web_session cookies_at tid k now m =
     (if now - start < 300 then
        (case sessions m tid of
           None \<Rightarrow> (m, now)
         | Some session \<Rightarrow>
             if status session = SUCCESS \<or> status session = FAILED
                \<or> status session = TIMEOUT
             then (m, now)
             else if login_detected initial_web_session (web_session_of (cookies_at k))
             then (monitor_success tid (cookies_at (Suc k)) m, now)
             else monitor_loop start initial_web_session cookies_at tid (Suc k) (now + 2) m)
      else (m, now))"
  by pat_completeness auto
termination
  by (relation "measure (\<lambda>(start, i, c, tid, k, now, m). nat \<lceil>start + 300 - now\<rceil>)")
     (auto simp: algebra_simps, linarith)

declare monitor_loop.simps [simp del]

text \<open>
  The monitor: the manager after it and the time at which it left its loop and set the
  final status.
\<close>

definition monitor_client_login ::
  "rat \<Rightarrow> (nat \<Rightarrow> cookie list) \<Rightarrow> string \<Rightarrow> login_manager \<Rightarrow> login_manager \<times> rat" where
  "monitor_client_login start cookies_at tid m =
     (let initial_web_session = web_session_of (cookies_at 0);
          (m1, t) = monitor_loop start initial_web_session cookies_at tid 1 start m
      in (case sessions m1 tid of
            None \<Rightarrow> (m1, t)
          | Some session \<Rightarrow>
              if status session \<noteq> SUCCESS \<and> status session \<noteq> FAILED
              then (m1\<lparr>sessions := (sessions m1)
                        (tid \<mapsto> update_status TIMEOUT None session)\<rparr>, t)
              else (m1, t)))"

section \<open>The orchestrator: \<open>MediaCrawlerAdapter\<close>\<close>

text \<open>
  The exceptions of the orchestrator. \<open>CancelledError\<close> derives from
  \<open>BaseException\<close>: a handler \<open>except Exception\<close> does not catch it.
\<close>

datatype py_exc = NameError string | KeyError string | TypeError string | Other pystr

definition exc_str :: "py_exc \<Rightarrow> pystr" where
  "exc_str e =
     (case e of
        NameError n \<Rightarrow> asc (''name '' @ [CHR 39] @ n @ [CHR 39] @ '' is not defined'')
      | KeyError k \<Rightarrow> asc ([CHR 39] @ k @ [CHR 39])
      | TypeError msg \<Rightarrow> asc msg
      | Other msg \<Rightarrow> msg)"

datatype 'a outcome = Returned 'a | Raised py_exc

type_synonym pydict = "(string \<times> pyval) list"

definition getitem :: "pydict \<Rightarrow> string \<Rightarrow> py_exc + pyval" where
  "getitem d k = (case map_of d k of None \<Rightarrow> Inl (KeyError k) | Some v \<Rightarrow> Inr v)"

fun truthy :: "pyval \<Rightarrow> bool" where
  "truthy (PBool b) = b"
| "truthy (PInt n) = (n \<noteq> 0)"
| "truthy (PStr s) = (s \<noteq> [])"
| "truthy (PList xs) = (xs \<noteq> [])"

record crawler_result =
  cr_task_id :: string
  cr_success :: bool
  cr_message :: pystr
  data_count :: int
  error_count :: int

text \<open>
  \<open>task_results\<close> is annotated with \<open>CrawlerResult\<close>; \<open>stop_task\<close> stores such an
  object, \<open>_run_mediacrawler_process\<close> stores the dictionary it built.
\<close>

datatype stored_result = Obj crawler_result | Dict pydict

definition item_count :: "stored_result \<Rightarrow> int option" where
  "item_count r =
     (case r of
        Obj c \<Rightarrow> Some (data_count c)
      | Dict d \<Rightarrow> (case map_of d ''data_count'' of Some (PInt n) \<Rightarrow> Some n | _ \<Rightarrow> None))"

text \<open>
  The entry of \<open>running_tasks\<close> is the \<open>asyncio.Task\<close> of the job: not yet done, done
  by returning, done by raising, or cancelled.
\<close>

datatype async_task = Pending | Finished_returned | Finished_raised py_exc | Cancelled

record adapter =
  running_tasks :: "string \<rightharpoonup> async_task"
  task_results :: "string \<rightharpoonup> stored_result"

subsection \<open>The external process\<close>

text \<open>
  The process is the environment: either it could not be spawned, or it wrote lines to
  its two streams, read at the given times in the given order, and exited.
\<close>

datatype stream_line = Stdout pystr | Stderr pystr

record process_run =
  output_lines :: "(rat \<times> stream_line) list"
  returncode :: int
  exit_time :: rat

datatype spawn = SpawnFailed py_exc | Spawned process_run

definition py_strip :: "pystr \<Rightarrow> pystr" where
  "py_strip s = rev (dropWhile is_space (rev (dropWhile is_space s)))"

fun drain ::
  "(rat \<times> stream_line) list \<Rightarrow> pystr list \<times> pystr list \<times> task_logger
     \<Rightarrow> pystr list \<times> pystr list \<times> task_logger" where
  "drain [] acc = acc"
| "drain ((t, Stdout raw) # rest) (stdout_lines, stderr_lines, l) =
     (let line_text = py_strip raw
      in if line_text \<noteq> []
         then drain rest (stdout_lines @ [line_text], stderr_lines,
                          parse_progress_from_line t line_text l)
         else drain rest (stdout_lines, stderr_lines, l))"
| "drain ((t, Stderr raw) # rest) (stdout_lines, stderr_lines, l) =
     (let line_text = py_strip raw
      in if line_text \<noteq> []
         then drain rest (stdout_lines, stderr_lines @ [line_text],
                          log_event t CRAWLER_ERROR l)
         else drain rest (stdout_lines, stderr_lines, l))"

fun digits_of :: "nat \<Rightarrow> pystr" where
  "digits_of n = (if n < 10 then [48 + n] else digits_of (n div 10) @ [48 + n mod 10])"

declare digits_of.simps [simp del]

definition py_str_int :: "int \<Rightarrow> pystr" where
  "py_str_int i = (if i < 0 then 45 # digits_of (nat (- i)) else digits_of (nat i))"

definition zh_zhixing_yichang :: pystr where \<comment> \<open>zhi xing yi chang, "exception while running: "\<close>
  "zh_zhixing_yichang = [25191, 34892, 24322, 24120, 58, 32]"
definition zh_jincheng_tuichuma :: pystr where \<comment> \<open>jin cheng tui chu ma, "exit code of the process: "\<close>
  "zh_jincheng_tuichuma = [36827, 31243, 36864, 20986, 30721, 58, 32]"
definition zh_cuowu_sep :: pystr where \<comment> \<open>", cuo wu: ", ", error: "\<close>
  "zh_cuowu_sep = [44, 32, 38169, 35823, 58, 32]"
definition zh_zhixing_cuowu :: pystr where \<comment> \<open>"error while running MediaCrawler: "\<close>
  "zh_zhixing_cuowu =
     [25191, 34892, 77, 101, 100, 105, 97, 67, 114, 97, 119, 108, 101, 114,
      26102, 21457, 29983, 38169, 35823, 58, 32]"
definition zh_shoudong_tingzhi :: pystr where \<comment> \<open>"the task was stopped by hand"\<close>
  "zh_shoudong_tingzhi = [20219, 21153, 24050, 34987, 25163, 21160, 20572, 27490]"

subsection \<open>\<open>_execute_crawler_process\<close>\<close>

text \<open>
  The names bound where the body of \<open>_execute_crawler_process\<close> runs: its parameters
  and locals, and the names of the module. Reading any other name raises
  \<open>NameError\<close>.
\<close>

definition execute_crawler_process_names :: "string list" where
  "execute_crawler_process_names =
     [ ''self'', ''cmd'', ''task_logger'', ''process'', ''stdout_lines'', ''stderr_lines'',
       ''read_stdout'', ''read_stderr'', ''returncode'', ''stdout_text'', ''stderr_text'',
       ''data_count'', ''e'',
       ''asyncio'', ''sys'', ''os'', ''subprocess'', ''tempfile'', ''json'', ''Dict'',
       ''List'', ''Optional'', ''Any'', ''dataclass'', ''Enum'', ''logging'', ''Path'',
       ''PlatformType'', ''logging_manager'', ''TaskEventType'', ''get_app_logger'',
       ''get_config_manager'', ''CrawlerConfigRequest'', ''CrawlerConfig'',
       ''login_manager'', ''LoginType'', ''LoginStatus'', ''get_settings'',
       ''cookies_manager'', ''logger'', ''MEDIACRAWLER_PATH'', ''CrawlerTaskType'',
       ''CrawlerTask'', ''CrawlerResult'', ''MediaCrawlerAdapter'', ''crawler_adapter'' ]"

definition read_name :: "string list \<Rightarrow> string \<Rightarrow> py_exc + unit" where
  "read_name scope n = (if n \<in> set scope then Inr () else Inl (NameError n))"

definition execute_failed :: "rat \<Rightarrow> py_exc \<Rightarrow> task_logger \<Rightarrow> pydict \<times> task_logger" where
  "execute_failed now e l =
     ([ (''success'', PBool False), (''error'', PStr (zh_zhixing_yichang @ exc_str e)) ],
      log_event now CRAWLER_ERROR l)"

text \<open>
  On exit code \<open>0\<close> the count is parsed, and then the call that harvests the
  credential artifact reads \<open>task.platform\<close>. The harvest has its own handler and does
  not change the result; it is not part of the model.
\<close>

definition execute_crawler_process ::
  "rat \<Rightarrow> spawn \<Rightarrow> task_logger \<Rightarrow> pydict \<times> task_logger" where
  "execute_crawler_process now sp l =
     (case sp of
        SpawnFailed e \<Rightarrow> execute_failed now e l
      | Spawned pr \<Rightarrow>
          (let (stdout_lines, stderr_lines, l1) = drain (output_lines pr) ([], [], l);
               stdout_text = join [10] stdout_lines;
               stderr_text = join [10] stderr_lines
           in if returncode pr = 0 then
                (let data_count = parse_data_count_from_output stdout_text
                 in case read_name execute_crawler_process_names ''task'' of
                      Inl e \<Rightarrow> execute_failed (exit_time pr) e l1
                    | Inr u \<Rightarrow>
                        ([ (''success'', PBool True), (''data_count'', PInt data_count),
                           (''stdout'', PStr stdout_text), (''stderr'', PStr stderr_text) ],
                         log_event (exit_time pr) TASK_PROGRESS l1))
              else
                ([ (''success'', PBool False),
                   (''error'', PStr (zh_jincheng_tuichuma @ py_str_int (returncode pr)
                                      @ zh_cuowu_sep @ stderr_text)),
                   (''stdout'', PStr stdout_text), (''stderr'', PStr stderr_text) ],
                 log_event (exit_time pr) CRAWLER_ERROR l1)))"

subsection \<open>\<open>_run_mediacrawler_process\<close>\<close>

text \<open>
  The handler of \<open>_run_mediacrawler_process\<close>: it stores the error result and then
  assigns to an item of the entry of \<open>running_tasks\<close>, which is an \<open>asyncio.Task\<close>;
  that raises \<open>TypeError\<close> out of the handler.
\<close>

definition task_item_assignment :: py_exc where
  "task_item_assignment =
     TypeError ([CHR 39] @ ''_asyncio.Task'' @ [CHR 39]
                @ '' object does not support item assignment'')"

definition run_failed ::
  "rat \<Rightarrow> string \<Rightarrow> py_exc \<Rightarrow> adapter \<Rightarrow> task_logger
     \<Rightarrow> pydict outcome \<times> adapter \<times> task_logger" where
  "run_failed now tid e ad l =
     (let error_msg = zh_zhixing_cuowu @ exc_str e;
          l1 = log_event now TASK_FAILED l;
          result = [ (''success'', PBool False), (''message'', PStr error_msg),
                     (''data_count'', PInt 0), (''error_count'', PInt 1),
                     (''data'', PList []) ];
          ad1 = ad\<lparr>task_results := (task_results ad)(tid \<mapsto> Dict result)\<rparr>
      in if tid \<in> dom (running_tasks ad1)
         then (Raised task_item_assignment, ad1, l1)
         else (Returned result, ad1, l1))"

text \<open>
  \<open>config_error\<close> is the exception of \<open>_create_temp_config\<close>, if it raised one;
  \<open>now\<close> is the time of the start and \<open>fin\<close> the time at which the process is over.
\<close>

definition run_mediacrawler_process ::
  "rat \<Rightarrow> rat \<Rightarrow> string \<Rightarrow> py_exc option \<Rightarrow> spawn \<Rightarrow> adapter \<Rightarrow> task_logger
     \<Rightarrow> pydict outcome \<times> adapter \<times> task_logger" where
  "run_mediacrawler_process now fin tid config_error sp ad l =
     (let l1 = log_event now TASK_PROGRESS l
      in case config_error of
           Some e \<Rightarrow> run_failed now tid e ad l1
         | None \<Rightarrow>
             (let l2 = log_event now TASK_PROGRESS l1;
                  (result, l3) = execute_crawler_process now sp l2
              in case getitem result ''success'' of
                   Inl e \<Rightarrow> run_failed fin tid e ad l3
                 | Inr ok \<Rightarrow>
                     (case getitem result ''message'' of
                        Inl e \<Rightarrow> run_failed fin tid e ad l3
                      | Inr msg \<Rightarrow>
                          (let l4 = log_event fin
                                      (if truthy ok then TASK_COMPLETED else TASK_FAILED) l3;
                               ad1 = ad\<lparr>task_results := (task_results ad)(tid \<mapsto> Dict result)\<rparr>
                           in if tid \<in> dom (running_tasks ad1)
                              then run_failed fin tid task_item_assignment ad1 l4
                              else (Returned result, ad1, l4)))))"

subsection \<open>Starting, finishing and stopping a job\<close>

datatype platform_type = XHS | DOUYIN | BILIBILI | KUAISHOU | WEIBO | TIEBA | ZHIHU

datatype crawler_task_type = SEARCH | DETAIL | CREATOR

fun get_platform_string :: "platform_type \<Rightarrow> string" where
  "get_platform_string XHS = ''xhs''"
| "get_platform_string DOUYIN = ''dy''"
| "get_platform_string BILIBILI = ''bili''"
| "get_platform_string KUAISHOU = ''ks''"
| "get_platform_string WEIBO = ''wb''"
| "get_platform_string TIEBA = ''tieba''"
| "get_platform_string ZHIHU = ''zhihu''"

text \<open>
  The fields of a \<open>CrawlerTask\<close> that decide what is collected; the limits, the flags
  and the save mode go to the command line of the process.
\<close>

record crawler_task =
  ct_task_id :: string
  ct_platform :: platform_type
  ct_task_type :: crawler_task_type
  ct_keywords :: "pystr list option"
  ct_content_ids :: "pystr list option"
  ct_creator_ids :: "pystr list option"
  ct_clear_cookies :: bool

record server =
  crawler_adapter :: adapter
  task_loggers :: "string \<rightharpoonup> task_logger"
  cookies_cache :: cookies_dir

definition create_task_logger :: "rat \<Rightarrow> string \<Rightarrow> string \<Rightarrow> server \<Rightarrow> task_logger \<times> server" where
  "create_task_logger now tid platform srv =
     (let l = log_event now TASK_CREATED (TaskLogger_init now tid platform)
      in (l, srv\<lparr>task_loggers := (task_loggers srv)(tid \<mapsto> l)\<rparr>))"

text \<open>
  \<open>start_crawler_task\<close>: the journal of the job is created, the execution unit is
  scheduled and entered in \<open>running_tasks\<close>, and the id is returned.
\<close>

definition start_crawler_task :: "rat \<Rightarrow> crawler_task \<Rightarrow> server \<Rightarrow> string \<times> server" where
  "start_crawler_task now task srv =
     (let tid = ct_task_id task;
          platform_str = get_platform_string (ct_platform task);
          (l, srv1) = create_task_logger now tid platform_str srv;
          l1 = log_event now TASK_STARTED l;
          ad = crawler_adapter srv1
      in (tid, srv1\<lparr> task_loggers := (task_loggers srv1)(tid \<mapsto> l1),
                     crawler_adapter := ad\<lparr>running_tasks := (running_tasks ad)(tid \<mapsto> Pending)\<rparr> \<rparr>))"

text \<open>
  The execution unit of a job runs to its end: \<open>_run_mediacrawler_process\<close> on what
  the process did, and the \<open>asyncio.Task\<close> becomes done with its outcome.
\<close>

definition task_done :: "'a outcome \<Rightarrow> async_task" where
  "task_done oc = (case oc of Returned r \<Rightarrow> Finished_returned | Raised e \<Rightarrow> Finished_raised e)"

definition finish_task ::
  "rat \<Rightarrow> rat \<Rightarrow> string \<Rightarrow> py_exc option \<Rightarrow> spawn \<Rightarrow> server \<Rightarrow> server" where
  "finish_task now fin tid config_error sp srv =
     (case task_loggers srv tid of
        None \<Rightarrow> srv
      | Some l \<Rightarrow>
          (let (oc, ad1, l1) =
                 run_mediacrawler_process now fin tid config_error sp (crawler_adapter srv) l;
               ad2 = (case running_tasks ad1 tid of
                        Some Pending \<Rightarrow>
                          ad1\<lparr>running_tasks := (running_tasks ad1)(tid \<mapsto> task_done oc)\<rparr>
                      | _ \<Rightarrow> ad1)
           in srv\<lparr> crawler_adapter := ad2,
                   task_loggers := (task_loggers srv)(tid \<mapsto> l1) \<rparr>))"

text \<open>
  \<open>stop_task\<close>: \<open>task.cancel()\<close> cancels a task that is not done and does nothing to
  one that is; \<open>await task\<close> raises \<open>CancelledError\<close> for a cancelled task, which is
  caught, and raises the exception of a task that ended by raising, which is not.
\<close>

definition cancel :: "async_task \<Rightarrow> async_task" where
  "cancel t = (case t of Pending \<Rightarrow> Cancelled | _ \<Rightarrow> t)"

definition stop_task :: "string \<Rightarrow> adapter \<Rightarrow> py_exc + (bool \<times> adapter)" where
  "stop_task tid ad =
     (case running_tasks ad tid of
        None \<Rightarrow> Inr (False, ad)
      | Some t \<Rightarrow>
          (case cancel t of
             Finished_raised e \<Rightarrow> Inl e
           | _ \<Rightarrow>
               Inr (True,
                    ad\<lparr> task_results := (task_results ad)
                          (tid \<mapsto> Obj \<lparr> cr_task_id = tid, cr_success = False,
                                        cr_message = zh_shoudong_tingzhi,
                                        data_count = 0, error_count = 0 \<rparr>),
                        running_tasks := (running_tasks ad)(tid := None) \<rparr>)))"

section \<open>Submission: the endpoints of \<open>main.py\<close>\<close>

definition PLATFORM_MAPPING :: "(string \<times> platform_type) list" where
  "PLATFORM_MAPPING =
     [ (''xhs'', XHS), (''douyin'', DOUYIN), (''bilibili'', BILIBILI),
       (''kuaishou'', KUAISHOU), (''weibo'', WEIBO), (''tieba'', TIEBA),
       (''zhihu'', ZHIHU) ]"

definition CrawlerTaskType_of :: "string \<Rightarrow> crawler_task_type option" where
  "CrawlerTaskType_of v =
     (if v = ''search'' then Some SEARCH
      else if v = ''detail'' then Some DETAIL
      else if v = ''creator'' then Some CREATOR
      else None)"

text \<open>
  The fields of the request that the checks read. The limits, the flags and the save
  mode are validated by the request model and passed on to the command line of the
  process.
\<close>

record crawler_task_request =
  platform :: string
  task_type :: string
  rq_keywords :: "pystr list option"
  content_ids :: "pystr list option"
  creator_ids :: "pystr list option"
  clear_cookies_flag :: bool

text \<open>\<open>not xs\<close> for an optional list: \<open>None\<close> or empty.\<close>

definition not_given :: "pystr list option \<Rightarrow> bool" where
  "not_given xs = (case xs of None \<Rightarrow> True | Some ys \<Rightarrow> ys = [])"

definition create_crawler_task ::
  "rat \<Rightarrow> string \<Rightarrow> crawler_task_request \<Rightarrow> server \<Rightarrow> string http_result \<times> server" where
  "create_crawler_task now new_id request srv =
     (case map_of PLATFORM_MAPPING (platform request) of
        None \<Rightarrow> (HTTPException 400, srv)
      | Some pt \<Rightarrow>
          (case CrawlerTaskType_of (task_type request) of
             None \<Rightarrow> (HTTPException 400, srv)
           | Some tt \<Rightarrow>
               if task_type request = ''search'' \<and> not_given (rq_keywords request)
               then (HTTPException 400, srv)
               else if task_type request = ''detail'' \<and> not_given (content_ids request)
               then (HTTPException 400, srv)
               else if task_type request = ''creator'' \<and> not_given (creator_ids request)
               then (HTTPException 400, srv)
               else
                 (let srv1 = (if clear_cookies_flag request
                              then srv\<lparr>cookies_cache :=
                                        snd (clear_cookies (Some (get_platform_string pt))
                                               (cookies_cache srv))\<rparr>
                              else srv);
                      task = \<lparr> ct_task_id = new_id, ct_platform = pt, ct_task_type = tt,
                               ct_keywords = rq_keywords request,
                               ct_content_ids = content_ids request,
                               ct_creator_ids = creator_ids request,
                               ct_clear_cookies = clear_cookies_flag request \<rparr>;
                      (tid, srv2) = start_crawler_task now task srv1
                  in (Response tid, srv2))))"

text \<open>
  The two platform endpoints \<open>POST /api/v1/xhs/search\<close> and
  \<open>POST /api/v1/douyin/search\<close>: the request has a list of keywords, which may be
  empty; the task is built and started, and nothing is checked.
\<close>

record quick_search_request =
  qs_keywords :: "pystr list"

definition quick_search_task :: "platform_type \<Rightarrow> string \<Rightarrow> quick_search_request \<Rightarrow> crawler_task" where
  "quick_search_task pt new_id request =
     \<lparr> ct_task_id = new_id, ct_platform = pt, ct_task_type = SEARCH,
       ct_keywords = Some (qs_keywords request), ct_content_ids = None,
       ct_creator_ids = None, ct_clear_cookies = False \<rparr>"

definition xhs_search :: "rat \<Rightarrow> string \<Rightarrow> quick_search_request \<Rightarrow> server \<Rightarrow> string \<times> server" where
  "xhs_search now new_id request srv =
     start_crawler_task now (quick_search_task XHS new_id request) srv"

definition douyin_search :: "rat \<Rightarrow> string \<Rightarrow> quick_search_request \<Rightarrow> server \<Rightarrow> string \<times> server" where
  "douyin_search now new_id request srv =
     start_crawler_task now (quick_search_task DOUYIN new_id request) srv"

section \<open>The inputs of the examples and the predicates of the properties\<close>

text \<open>
  A manager with no session, and the manager after a qrcode session of the job \<open>job\<close>
  was created at time 0 with the default timeout of 300 seconds.
\<close>

definition no_sessions :: login_manager where
  "no_sessions = \<lparr> sessions = Map.empty \<rparr>"

definition one_session :: login_manager where
  "one_session = snd (create_login_session 0 ''job'' ''xhs'' QRCODE 300 no_sessions)"

text \<open>
  A qrcode session of the job \<open>job\<close>, created at time 0 with a timeout of 60 seconds,
  after \<open>_handle_qrcode_login\<close> has opened the login page; and the cookies of a
  browser whose marker cookie \<open>web_session\<close> keeps the value of a visitor who has not
  logged in.
\<close>

definition qr_manager :: login_manager where
  "qr_manager =
     (let (s, m) = create_login_session 0 ''job'' ''xhs'' QRCODE 60 no_sessions
      in m\<lparr>sessions := (sessions m)
             (''job'' \<mapsto> update_status QRCODE_GENERATED None
                          (s\<lparr>page := True, browser := True, browser_context := True\<rparr>))\<rparr>)"

definition guest_cookies :: "cookie list" where
  "guest_cookies =
     [ \<lparr> ck_name = ''a1'', ck_value = ''x'', ck_domain = Some ''.xiaohongshu.com'',
         ck_path = Some ''/'' \<rparr>,
       \<lparr> ck_name = ''web_session'', ck_value = ''guest'',
         ck_domain = Some ''.xiaohongshu.com'', ck_path = Some ''/'' \<rparr> ]"

text \<open>
  A server with no jobs; the process of a job that writes the completion phrase with the
  value 42 (bao cun 42 tiao) and exits with code 0; the server after the job \<open>job\<close>
  was submitted, and after its execution unit ran to its end on that process.
\<close>

definition empty_server :: server where
  "empty_server =
     \<lparr> crawler_adapter = \<lparr> running_tasks = Map.empty, task_results = Map.empty \<rparr>,
       task_loggers = Map.empty, cookies_cache = Map.empty \<rparr>"

definition run_saved_42 :: process_run where
  "run_saved_42 =
     \<lparr> output_lines = [(1, Stdout (zh_baocun @ asc '' 42 '' @ zh_tiao @ [10]))],
       returncode = 0, exit_time = 2 \<rparr>"

definition started_server :: server where
  "started_server =
     snd (start_crawler_task 0
            \<lparr> ct_task_id = ''job'', ct_platform = XHS, ct_task_type = SEARCH,
              ct_keywords = Some [asc ''a''], ct_content_ids = None, ct_creator_ids = None,
              ct_clear_cookies = False \<rparr> empty_server)"

definition finished_server :: server where
  "finished_server = finish_task 0 2 ''job'' None (Spawned run_saved_42) started_server"

text \<open>
  The target set does not match the job type: search without keywords, detail without
  content ids, creator without creator ids. It matches: the job type is one of the
  three and its list is given and not empty.
\<close>

definition target_mismatch :: "crawler_task_request \<Rightarrow> bool" where
  "target_mismatch request =
     ((task_type request = ''search'' \<and> not_given (rq_keywords request))
      \<or> (task_type request = ''detail'' \<and> not_given (content_ids request))
      \<or> (task_type request = ''creator'' \<and> not_given (creator_ids request)))"

definition target_match :: "crawler_task_request \<Rightarrow> bool" where
  "target_match request =
     ((task_type request = ''search'' \<and> \<not> not_given (rq_keywords request))
      \<or> (task_type request = ''detail'' \<and> \<not> not_given (content_ids request))
      \<or> (task_type request = ''creator'' \<and> \<not> not_given (creator_ids request)))"

text \<open>
  A search request for a platform with the given keywords.
\<close>

definition search_request :: "string \<Rightarrow> pystr list option \<Rightarrow> crawler_task_request" where
  "search_request pf kws =
     \<lparr> platform = pf, task_type = ''search'', rq_keywords = kws, content_ids = None,
       creator_ids = None, clear_cookies_flag = False \<rparr>"

text \<open>
  The journal of a new job; a line with the phrase of the ratio (yi pa qu 3/5); and a
  line that has the phrase of the start of the crawl before it.
\<close>

definition fresh_logger :: task_logger where
  "fresh_logger = TaskLogger_init 0 ''job'' ''xhs''"

definition ratio_line :: pystr where
  "ratio_line = zh_yi_paqu @ asc '' 3/5''"

definition start_and_ratio_line :: pystr where
  "start_and_ratio_line = zh_kaishi_paqu @ asc '' '' @ zh_yi_paqu @ asc '' 3/5''"

text \<open>
  The percentage of the snapshot of a journal is within 0 and 100.
\<close>

definition percent_in_range :: "task_logger \<Rightarrow> bool" where
  "percent_in_range l =
     (0 \<le> progress_percent (progress l) \<and> progress_percent (progress l) \<le> 100)"

lemmas rx_eval = lit_matches_def lit_variants_def decimal_value_def decimal_runs_def
  is_space_def whitespace_def py_int_def

section \<open>Login sessions: creation and the status read\<close>

text \<open>
  Claim C2, as amended. The session table is a dictionary keyed by the job id, so it
  holds at most one session per id. When the id of a create-session request already has
  a session, the endpoint rejects the request (with \<open>success = False\<close> and
  \<open>session_created = False\<close>, or with status 500 when the login type is unknown)
  and leaves the session table, and with it every field of the existing session, as it
  was.
\<close>

theorem C2_endpoint_rejects_second_create:
  assumes "sessions m (rq_task_id request) = Some s"
  shows "snd (create_login_session_endpoint now request m) = m
         \<and> fst (create_login_session_endpoint now request m)
            = (if LoginType_of (rq_login_type request) = None then HTTPException 500
               else Response \<lparr> rs_success = False, rs_task_id = rq_task_id request,
                                session_created = False \<rparr>)"
  using assms
  by (simp add: create_login_session_endpoint_def get_login_session_def split: option.splits)

text \<open>
  Claim C2, witness: a second request for the job \<open>job\<close>, whose session was created
  at time 0.
\<close>

theorem C2_endpoint_rejects_second_create_witness:
  "sessions one_session ''job'' = Some ((LoginSession_init 0 ''job'' ''xhs'' QRCODE)\<lparr>timeout := 300\<rparr>)
   \<and> snd (create_login_session_endpoint 50
             \<lparr> rq_task_id = ''job'', rq_platform = ''douyin'', rq_login_type = ''phone'',
               rq_timeout = 60, rq_cookies = None \<rparr> one_session) = one_session
   \<and> fst (create_login_session_endpoint 50
             \<lparr> rq_task_id = ''job'', rq_platform = ''douyin'', rq_login_type = ''phone'',
               rq_timeout = 60, rq_cookies = None \<rparr> one_session)
       = Response \<lparr> rs_success = False, rs_task_id = ''job'', session_created = False \<rparr>"
proof -
  let ?rq = "\<lparr> rq_task_id = ''job'', rq_platform = ''douyin'', rq_login_type = ''phone'',
               rq_timeout = 60, rq_cookies = None \<rparr>"
  have h: "sessions one_session (rq_task_id ?rq)
           = Some ((LoginSession_init 0 ''job'' ''xhs'' QRCODE)\<lparr>timeout := 300\<rparr>)"
    by (simp add: one_session_def no_sessions_def create_login_session_def Let_def)
  from C2_endpoint_rejects_second_create [of one_session ?rq _ 50, OF h] h
  show ?thesis
    by (simp add: LoginType_of_def)
qed

text \<open>
  Claim C2, counterexample to the claim as stated: \<open>LoginManager.create_login_session\<close>
  itself makes no check, and a second call for the same job id replaces the stored
  session.
\<close>

theorem C2_counterexample:
  "sessions one_session ''job'' \<noteq> None
   \<and> sessions (snd (create_login_session 50 ''job'' ''douyin'' PHONE 60 one_session)) ''job''
      \<noteq> sessions one_session ''job''"
  by (simp add: one_session_def no_sessions_def create_login_session_def LoginSession_init_def Let_def)

text \<open>
  Claim C3, as amended. For a stored session whose elapsed time exceeds its timeout, the
  status read reports \<open>timeout\<close> and writes \<open>timeout\<close> into the stored status;
  every other field of the stored session, and every other session, is unchanged.
\<close>

theorem C3_expired_read_stores_timeout:
  assumes "sessions m tid = Some s"
    and "now - ls_start_time s > of_int (timeout s)"
  shows "lr_status (fst (get_login_status now tid m)) = TIMEOUT
         \<and> sessions (snd (get_login_status now tid m)) = (sessions m)(tid \<mapsto> s\<lparr>status := TIMEOUT\<rparr>)"
  using assms
  by (simp add: get_login_status_def get_login_session_def is_expired_def update_status_def)

text \<open>
  Claim C3, witness: the session created at time 0 with a timeout of 300 seconds, read
  at time 301.
\<close>

theorem C3_expired_read_stores_timeout_witness:
  "sessions one_session ''job'' = Some ((LoginSession_init 0 ''job'' ''xhs'' QRCODE)\<lparr>timeout := 300\<rparr>)
   \<and> lr_status (fst (get_login_status 301 ''job'' one_session)) = TIMEOUT
   \<and> sessions (snd (get_login_status 301 ''job'' one_session))
      = (sessions one_session)
          (''job'' \<mapsto> (LoginSession_init 0 ''job'' ''xhs'' QRCODE)\<lparr>timeout := 300, status := TIMEOUT\<rparr>)"
proof -
  let ?s = "(LoginSession_init 0 ''job'' ''xhs'' QRCODE)\<lparr>timeout := 300\<rparr>"
  have h1: "sessions one_session ''job'' = Some ?s"
    by (simp add: one_session_def no_sessions_def create_login_session_def Let_def)
  have h2: "301 - ls_start_time ?s > of_int (timeout ?s)"
    by (simp add: LoginSession_init_def)
  from C3_expired_read_stores_timeout [of one_session "''job''" ?s 301, OF h1 h2] h1
  show ?thesis
    by simp
qed

text \<open>
  Claim C3, counterexample to the claim as stated: the stored status of that session is
  \<open>pending\<close> before the read and is not after it.
\<close>

theorem C3_counterexample:
  "map_option status (sessions one_session ''job'') = Some PENDING
   \<and> lr_status (fst (get_login_status 301 ''job'' one_session)) = TIMEOUT
   \<and> map_option status (sessions (snd (get_login_status 301 ''job'' one_session)) ''job'')
      \<noteq> map_option status (sessions one_session ''job'')"
  by (simp add: one_session_def no_sessions_def create_login_session_def LoginSession_init_def Let_def
        get_login_status_def get_login_session_def is_expired_def update_status_def)

section \<open>The monitor of a qrcode session and the timeout of the session\<close>

text \<open>
  While the marker does not change and the session is not terminal, a round of the loop
  changes nothing, and the loop ends when 300 seconds have passed since its start.
\<close>

lemma monitor_loop_quiet:
  assumes "sessions m tid = Some s"
    and "status s \<noteq> SUCCESS" and "status s \<noteq> FAILED" and "status s \<noteq> TIMEOUT"
    and "\<And>k. \<not> login_detected init (web_session_of (cookies_at k))"
  shows "monitor_loop start init cookies_at tid k (start + 300 - 2 * of_nat j) m
         = (m, start + 300)"
proof (induction j arbitrary: k)
  case 0
  show ?case
    by (subst monitor_loop.simps) simp
next
  case (Suc j)
  have step: "start + 300 - 2 * of_nat (Suc j) + 2 = start + 300 - 2 * (of_nat j :: rat)"
    by (simp add: algebra_simps)
  have lt: "start + 300 - 2 * of_nat (Suc j) - start < (300 :: rat)"
    by (simp add: algebra_simps)
  show ?case
    by (subst monitor_loop.simps)
       (simp only: lt step assms Suc.IH if_True if_False option.case simp_thms)
qed

text \<open>
  Claim C4, the code at the failing input. The session has a timeout of 60 seconds and
  its marker cookie never changes. The monitor started at time 0 leaves its loop and
  sets the status to \<open>timeout\<close> at time 300, not between 60 and 62: the bound of the
  loop is the constant 300, and the timeout of the session is not read.
\<close>

theorem C4_monitor_uses_fixed_bound:
  "map_option timeout (sessions qr_manager ''job'') = Some 60
   \<and> map_option status (sessions qr_manager ''job'') = Some QRCODE_GENERATED
   \<and> snd (monitor_client_login 0 (\<lambda>k. guest_cookies) ''job'' qr_manager) = 300
   \<and> map_option status
        (sessions (fst (monitor_client_login 0 (\<lambda>k. guest_cookies) ''job'' qr_manager)) ''job'')
      = Some TIMEOUT"
proof -
  obtain s where s: "sessions qr_manager ''job'' = Some s"
    and st: "status s = QRCODE_GENERATED" and tm: "timeout s = 60"
    by (simp add: qr_manager_def no_sessions_def create_login_session_def Let_def
          update_status_def LoginSession_init_def)
  have quiet: "\<And>k. \<not> login_detected (web_session_of guest_cookies) (web_session_of guest_cookies)"
    by (simp add: login_detected_def split: option.splits)
  have "monitor_loop 0 (web_session_of guest_cookies) (\<lambda>k. guest_cookies) ''job'' (Suc 0)
          (0 + 300 - 2 * of_nat 150) qr_manager = (qr_manager, 0 + 300)"
    using s st quiet by (intro monitor_loop_quiet [where s = s]) simp_all
  then have loop: "monitor_loop 0 (web_session_of guest_cookies) (\<lambda>k. guest_cookies) ''job'' (Suc 0) 0
          qr_manager = (qr_manager, 300)"
    by simp
  show ?thesis
    using s st tm by (simp add: monitor_client_login_def loop update_status_def)
qed

section \<open>The result of a job, and stopping a job\<close>

text \<open>
  \<open>task\<close> is not a name of \<open>_execute_crawler_process\<close>, so no dictionary it returns
  has the key \<open>message\<close>, and \<open>_run_mediacrawler_process\<close> always ends in its
  handler: the stored result has \<open>data_count = 0\<close>, and the task ends by raising when
  the job is in \<open>running_tasks\<close>, where it stays.
\<close>

lemma task_not_bound: "read_name execute_crawler_process_names ''task'' = Inl (NameError ''task'')"
  by (simp add: read_name_def execute_crawler_process_names_def)

lemma execute_no_message:
  "map_of (fst (execute_crawler_process now sp l)) ''message'' = None
   \<and> map_of (fst (execute_crawler_process now sp l)) ''success'' \<noteq> None"
  by (simp add: execute_crawler_process_def execute_failed_def task_not_bound Let_def
        split: spawn.splits prod.splits)

lemma run_failed_stores:
  "task_results (fst (snd (run_failed now tid e ad l))) tid
   = Some (Dict [ (''success'', PBool False), (''message'', PStr (zh_zhixing_cuowu @ exc_str e)),
                  (''data_count'', PInt 0), (''error_count'', PInt 1), (''data'', PList []) ])"
  by (simp add: run_failed_def Let_def)

lemma run_failed_outcome:
  "running_tasks ad tid = Some t \<Longrightarrow> fst (run_failed now tid e ad l) = Raised task_item_assignment"
  by (simp add: run_failed_def Let_def domI)

lemma run_failed_running:
  "running_tasks (fst (snd (run_failed now tid e ad l))) = running_tasks ad"
  by (simp add: run_failed_def Let_def)

lemma run_stores_zero:
  "map_option item_count
     (task_results (fst (snd (run_mediacrawler_process now fin tid ce sp ad l))) tid)
   = Some (Some 0)"
proof -
  obtain result l3 where ex: "execute_crawler_process now sp (log_event now TASK_PROGRESS (log_event now TASK_PROGRESS l)) = (result, l3)"
    by (cases "execute_crawler_process now sp (log_event now TASK_PROGRESS (log_event now TASK_PROGRESS l))")
  from execute_no_message [of now sp "log_event now TASK_PROGRESS (log_event now TASK_PROGRESS l)"] ex
  have nm: "map_of result ''message'' = None" and sc: "map_of result ''success'' \<noteq> None"
    by simp_all
  show ?thesis
    using nm sc
    by (cases ce) (auto simp: run_mediacrawler_process_def Let_def ex getitem_def
          run_failed_stores item_count_def)
qed

lemma run_raises:
  "tid \<in> dom (running_tasks ad) \<Longrightarrow>
   fst (run_mediacrawler_process now fin tid ce sp ad l) = Raised task_item_assignment
   \<and> running_tasks (fst (snd (run_mediacrawler_process now fin tid ce sp ad l))) = running_tasks ad"
proof -
  assume d: "tid \<in> dom (running_tasks ad)"
  obtain result l3 where ex: "execute_crawler_process now sp (log_event now TASK_PROGRESS (log_event now TASK_PROGRESS l)) = (result, l3)"
    by (cases "execute_crawler_process now sp (log_event now TASK_PROGRESS (log_event now TASK_PROGRESS l))")
  from execute_no_message [of now sp "log_event now TASK_PROGRESS (log_event now TASK_PROGRESS l)"] ex
  have nm: "map_of result ''message'' = None" and sc: "map_of result ''success'' \<noteq> None"
    by simp_all
  show ?thesis
    using nm sc d
    by (cases ce) (auto simp: run_mediacrawler_process_def Let_def ex getitem_def
          run_failed_outcome run_failed_running)
qed

lemma started_job:
  "running_tasks (crawler_adapter started_server) ''job'' = Some Pending
   \<and> task_loggers started_server ''job'' \<noteq> None"
  by (simp add: started_server_def start_crawler_task_def create_task_logger_def
        empty_server_def Let_def)

lemma finished_job:
  "running_tasks (crawler_adapter finished_server) ''job'' = Some (Finished_raised task_item_assignment)
   \<and> map_option item_count (task_results (crawler_adapter finished_server) ''job'') = Some (Some 0)"
proof -
  from started_job obtain l where l: "task_loggers started_server ''job'' = Some l" and
    p: "running_tasks (crawler_adapter started_server) ''job'' = Some Pending"
    by auto
  from p have d: "''job'' \<in> dom (running_tasks (crawler_adapter started_server))"
    by auto
  obtain oc ad1 l1 where r: "run_mediacrawler_process 0 2 ''job'' None (Spawned run_saved_42)
      (crawler_adapter started_server) l = (oc, ad1, l1)"
    by (cases "run_mediacrawler_process 0 2 ''job'' None (Spawned run_saved_42)
      (crawler_adapter started_server) l") auto
  from run_raises [OF d, of 0 2 None "Spawned run_saved_42" l] r
  have oc: "oc = Raised task_item_assignment" and rt: "running_tasks ad1 = running_tasks (crawler_adapter started_server)"
    by simp_all
  from run_stores_zero [of 0 2 "''job''" None "Spawned run_saved_42" "crawler_adapter started_server" l] r
  have z: "map_option item_count (task_results ad1 ''job'') = Some (Some 0)"
    by simp
  show ?thesis
    using z by (simp add: finished_server_def finish_task_def l r oc rt p task_done_def)
qed

text \<open>
  The count parser returns at the first pattern of its list that has a match: with a
  line \<open>total: 5\<close> before the completion phrase with the value 42, the count is 5.
\<close>

lemma count_of_first_matching_pattern:
  "parse_data_count_from_output (asc ''total: 5'' @ [10] @ zh_baocun @ asc '' 42 '' @ zh_tiao) = 5"
  by (simp add: parse_data_count_from_output_def count_patterns_def lits_def
        asc_def zh_baocun_def zh_gong_paqu_def zh_huoqu_def zh_tiao_def zh_tiao_shuju_def
        zh_wancheng_def zh_ge_def group1_def re_findall_def rx_eval)

text \<open>
  Claim C1, the code at the failing input. The process exits with code 0 and its
  captured output is the completion phrase with the value 42, which the count parser
  reads as 42; the result stored for the job has the item count 0.
\<close>

theorem C1_item_count_is_lost:
  "returncode run_saved_42 = 0
   \<and> parse_data_count_from_output (zh_baocun @ asc '' 42 '' @ zh_tiao) = 42
   \<and> map_option item_count (task_results (crawler_adapter finished_server) ''job'') = Some (Some 0)"
  using finished_job
  by (simp add: run_saved_42_def parse_data_count_from_output_def count_patterns_def lits_def
        asc_def zh_baocun_def zh_gong_paqu_def zh_huoqu_def zh_tiao_def zh_tiao_shuju_def
        zh_wancheng_def zh_ge_def group1_def re_findall_def rx_eval)

text \<open>
  Claim C9, the code at the failing input. The job has finished and is still in
  \<open>running_tasks\<close>; \<open>stop_task\<close> does not return \<open>False\<close>: awaiting the task
  raises the exception the task ended with.
\<close>

theorem C9_stop_finished_job_raises:
  "running_tasks (crawler_adapter finished_server) ''job'' = Some (Finished_raised task_item_assignment)
   \<and> stop_task ''job'' (crawler_adapter finished_server) = Inl task_item_assignment
   \<and> stop_task ''job'' (crawler_adapter finished_server) \<noteq> Inr (False, crawler_adapter finished_server)"
  using finished_job by (simp add: stop_task_def cancel_def)

text \<open>
  The two cases of \<open>stop_task\<close> that agree with claim C9: an unknown id gives
  \<open>False\<close> and changes nothing; a job that is still running gives \<open>True\<close>, and the
  stored result has \<open>success = False\<close> and the message that the task was stopped by
  hand.
\<close>

lemma stop_task_unknown:
  "running_tasks ad tid = None \<Longrightarrow> stop_task tid ad = Inr (False, ad)"
  by (simp add: stop_task_def)

lemma stop_task_running:
  "running_tasks ad tid = Some Pending \<Longrightarrow>
   \<exists>ad'. stop_task tid ad = Inr (True, ad')
     \<and> task_results ad' tid = Some (Obj \<lparr> cr_task_id = tid, cr_success = False,
                                         cr_message = zh_shoudong_tingzhi,
                                         data_count = 0, error_count = 0 \<rparr>)
     \<and> running_tasks ad' tid = None"
  by (simp add: stop_task_def cancel_def)

section \<open>The snapshot after an update\<close>

text \<open>
  What \<open>update_progress\<close> leaves in the snapshot: each number that is given, and
  the old one where none is given. Neither the estimate of the remaining time nor the
  logging of the event changes these fields, and they are assigned before the estimate,
  so they are the same when the estimate raises.
\<close>

lemma log_event_progress: "progress (log_event now ty l) = progress l"
  by (simp add: log_event_def)

lemma estimate_keeps:
  "estimate now st p = Inr p' \<Longrightarrow>
   progress_percent p' = progress_percent p \<and> items_total p' = items_total p
   \<and> items_completed p' = items_completed p"
  by (auto simp: estimate_def split: if_splits sum.splits)

lemma update_fields_percent:
  "progress_percent (update_fields now st pc a b c d p)
   = (case pc of Some v \<Rightarrow> v | None \<Rightarrow> progress_percent p)"
  by (simp add: update_fields_def Let_def split: option.splits)

lemma update_fields_total:
  "items_total (update_fields now st pc a b c d p)
   = (case a of Some v \<Rightarrow> v | None \<Rightarrow> items_total p)"
  by (simp add: update_fields_def Let_def split: option.splits)

lemma update_fields_completed:
  "items_completed (update_fields now st pc a b c d p)
   = (case b of Some v \<Rightarrow> v | None \<Rightarrow> items_completed p)"
  by (simp add: update_fields_def Let_def split: option.splits)

lemma update_progress_percent:
  "progress_percent (progress (update_progress now st pc a b c d l))
   = (case pc of Some v \<Rightarrow> v | None \<Rightarrow> progress_percent (progress l))"
  by (auto simp: update_progress_def Let_def log_event_progress update_fields_percent
        dest: estimate_keeps split: sum.splits)

lemma update_progress_total:
  "items_total (progress (update_progress now st pc a b c d l))
   = (case a of Some v \<Rightarrow> v | None \<Rightarrow> items_total (progress l))"
  by (auto simp: update_progress_def Let_def log_event_progress update_fields_total
        dest: estimate_keeps split: sum.splits)

lemma update_progress_completed:
  "items_completed (progress (update_progress now st pc a b c d l))
   = (case b of Some v \<Rightarrow> v | None \<Rightarrow> items_completed (progress l))"
  by (auto simp: update_progress_def Let_def log_event_progress update_fields_completed
        dest: estimate_keeps split: sum.splits)

section \<open>Rounding to a float\<close>

subsection \<open>Signs\<close>

text \<open>
  Rounding keeps the sign: the float of a number that is not negative is not negative,
  or it is the positive infinity. So the percentage of the ratio phrase is a finite float
  from 0 to 90 whenever the quotient is not negative, and the quotient of two captured
  numbers is not negative.
\<close>

lemma ulp_pos: "0 < ulp q"
  by (simp add: ulp_def)

lemma round_half_even_nonneg: "0 \<le> x \<Longrightarrow> 0 \<le> round_half_even x"
  by (auto simp: round_half_even_def Let_def)

lemma round_double_nonneg: "0 \<le> q \<Longrightarrow> 0 \<le> round_double q"
proof -
  assume q: "0 \<le> q"
  have "0 \<le> q / ulp q"
    using q ulp_pos [of q] by simp
  then have "0 \<le> round_half_even (q / ulp q)"
    by (rule round_half_even_nonneg)
  then have "0 \<le> round_pos q"
    using ulp_pos [of q] by (simp add: round_pos_def)
  with q show ?thesis
    by (simp add: round_double_def)
qed

lemma to_float_nonneg:
  "0 \<le> q \<Longrightarrow> to_float q = PInf \<or> (\<exists>v. to_float q = Finite v \<and> 0 \<le> v)"
  using round_double_nonneg [of q] by (auto simp: to_float_def Let_def)

lemma ratio_percent_range:
  assumes "0 \<le> r"
  shows "\<exists>v. ratio_percent r = Finite v \<and> 0 \<le> v \<and> v \<le> 90"
proof -
  have "0 \<le> r * 50"
    using assms by simp
  from to_float_nonneg [OF this] show ?thesis
  proof
    assume "to_float (r * 50) = PInf"
    then show ?thesis
      by (simp add: ratio_percent_def py_min_def)
  next
    assume "\<exists>v. to_float (r * 50) = Finite v \<and> 0 \<le> v"
    then obtain p where p: "to_float (r * 50) = Finite p" and p0: "0 \<le> p"
      by auto
    have "0 \<le> 40 + p"
      using p0 by simp
    from to_float_nonneg [OF this] show ?thesis
    proof
      assume "to_float (40 + p) = PInf"
      with p show ?thesis
        by (simp add: ratio_percent_def py_min_def)
    next
      assume "\<exists>v. to_float (40 + p) = Finite v \<and> 0 \<le> v"
      then obtain s where "to_float (40 + p) = Finite s" and "0 \<le> s"
        by auto
      with p show ?thesis
        by (simp add: ratio_percent_def py_min_def)
    qed
  qed
qed

lemma py_int_nonneg: "py_int g = Inr n \<Longrightarrow> 0 \<le> n"
  by (auto simp: py_int_def split: if_splits option.splits)

lemma truediv_nonneg: "0 \<le> a \<Longrightarrow> 0 < b \<Longrightarrow> truediv a b = Inr r \<Longrightarrow> 0 \<le> r"
proof -
  assume a: "0 \<le> a" and b: "0 < b" and t: "truediv a b = Inr r"
  have "0 \<le> (of_int a / of_int b :: rat)"
    using a b by simp
  from to_float_nonneg [OF this] t b show ?thesis
    by (auto simp: truediv_def)
qed

subsection \<open>The binade of a positive number\<close>

text \<open>
  \<open>bit_length\<close> is the number of binary digits, and \<open>binade q\<close> is the exponent
  \<open>e\<close> with \<open>2 ^ e \<le> q < 2 ^ (e + 1)\<close>.
\<close>

lemma bit_length_bounds:
  "0 < n \<Longrightarrow> 2 ^ (bit_length n - 1) \<le> n \<and> n < 2 ^ bit_length n"
proof (induction n rule: bit_length.induct)
  case (1 n)
  show ?case
  proof (cases "n div 2 = 0")
    case True
    with "1.prems" have "n = 1"
      by (simp add: div_eq_0_iff) 
    then show ?thesis
      by (simp add: bit_length.simps)
  next
    case False
    then have pos: "0 < n div 2"
      by simp
    from "1.prems" have n0: "n \<noteq> 0"
      by simp
    from "1.IH" [OF n0 pos]
    have lo: "2 ^ (bit_length (n div 2) - 1) \<le> n div 2"
      and hi: "n div 2 < 2 ^ bit_length (n div 2)"
      by simp_all
    have b1: "0 < bit_length (n div 2)"
      using pos by (subst bit_length.simps) simp
    have bl: "bit_length n = Suc (bit_length (n div 2))"
      using n0 by (subst bit_length.simps) simp
    have "2 * 2 ^ (bit_length (n div 2) - 1) = (2::nat) ^ bit_length (n div 2)"
      using b1 by (cases "bit_length (n div 2)") simp_all
    with lo have l2: "2 ^ bit_length (n div 2) \<le> n"
      by linarith
    from hi have "n < 2 * 2 ^ bit_length (n div 2)"
      by linarith
    with l2 bl show ?thesis
      by simp
  qed
qed

lemma binade_bounds:
  assumes "0 < q"
  shows "2 powi (binade q) \<le> q \<and> q < 2 powi (binade q + 1)"
proof (cases "1 \<le> q")
  case True
  define N where "N = nat \<lfloor>q\<rfloor>"
  have fl: "1 \<le> \<lfloor>q\<rfloor>"
    using True by linarith
  then have N: "0 < N" and Nq: "int N = \<lfloor>q\<rfloor>"
    by (simp_all add: N_def)
  from bit_length_bounds [OF N]
  have lo: "2 ^ (bit_length N - 1) \<le> N" and hi: "N < 2 ^ bit_length N"
    by simp_all
  have b: "binade q = int (bit_length N) - 1"
    using True by (simp add: binade_def N_def)
  have b1: "0 < bit_length N"
    using N by (subst bit_length.simps) simp
  then have e1: "int (bit_length N) - 1 = int (bit_length N - 1)"
    by simp
  have "(2::rat) ^ (bit_length N - 1) \<le> of_nat N"
    using lo by (metis of_nat_le_iff of_nat_numeral of_nat_power)
  also have "(of_nat N :: rat) = of_int \<lfloor>q\<rfloor>"
    using Nq by (metis of_int_of_nat_eq)
  also have "\<dots> \<le> q"
    by simp
  finally have A: "2 powi (binade q) \<le> q"
    by (simp add: b e1)
  have "int N + 1 \<le> 2 ^ bit_length N"
    using hi by (metis add.commute of_nat_Suc of_nat_le_iff of_nat_numeral of_nat_power Suc_leI plus_1_eq_Suc)
  then have "\<lfloor>q\<rfloor> + 1 \<le> 2 ^ bit_length N"
    using Nq by simp
  then have "(of_int (\<lfloor>q\<rfloor> + 1) :: rat) \<le> of_int (2 ^ bit_length N)"
    by (rule of_int_le_iff [THEN iffD2])
  moreover have "q < of_int (\<lfloor>q\<rfloor> + 1)"
    by linarith
  ultimately have "q < 2 ^ bit_length N"
    by simp
  then have B: "q < 2 powi (binade q + 1)"
    by (simp add: b)
  from A B show ?thesis ..
next
  case False
  then have q1: "q < 1"
    by simp
  define c where "c = \<lceil>1 / q\<rceil>"
  define N where "N = nat (c - 1)"
  have t: "1 < 1 / q"
    using assms q1 by simp
  then have c2: "2 \<le> c"
    unfolding c_def by linarith
  then have N: "0 < N" and Nc: "int N = c - 1"
    by (simp_all add: N_def)
  from bit_length_bounds [OF N]
  have lo: "2 ^ (bit_length N - 1) \<le> N" and hi: "N < 2 ^ bit_length N"
    by simp_all
  have b: "binade q = - int (bit_length N)"
    using False by (simp add: binade_def N_def c_def)
  have b1: "0 < bit_length N"
    using N by (subst bit_length.simps) simp
  have "int N + 1 \<le> 2 ^ bit_length N"
    using hi by (metis add.commute of_nat_Suc of_nat_le_iff of_nat_numeral of_nat_power Suc_leI plus_1_eq_Suc)
  then have "c \<le> 2 ^ bit_length N"
    using Nc by simp
  then have "(of_int c :: rat) \<le> of_int (2 ^ bit_length N)"
    by (rule of_int_le_iff [THEN iffD2])
  then have "(of_int c :: rat) \<le> 2 ^ bit_length N"
    by simp
  moreover have "1 / q \<le> of_int c"
    unfolding c_def by linarith
  ultimately have "1 / q \<le> 2 ^ bit_length N"
    by linarith
  then have "1 \<le> 2 ^ bit_length N * q"
    using assms by (simp add: field_simps)
  then have A: "2 powi (binade q) \<le> q"
    by (simp add: b power_int_minus field_simps)
  have "int (2 ^ (bit_length N - 1)) \<le> c - 1"
    using lo Nc by (metis of_nat_le_iff)
  then have "(of_int (int (2 ^ (bit_length N - 1))) :: rat) \<le> of_int (c - 1)"
    by (rule of_int_le_iff [THEN iffD2])
  moreover have "of_int (c - 1) < 1 / q"
    unfolding c_def by linarith
  ultimately have "2 ^ (bit_length N - 1) < 1 / q"
    by simp
  then have lt: "2 ^ (bit_length N - 1) * q < 1"
    using assms by (simp add: field_simps)
  have e: "- int (bit_length N) + 1 = - int (bit_length N - 1)"
    using b1 by simp
  have pw: "(2::rat) powi (binade q + 1) = 1 / 2 ^ (bit_length N - 1)"
    unfolding b e by (simp add: power_int_minus_divide)
  have B: "q < 2 powi (binade q + 1)"
    unfolding pw using lt by (simp add: field_simps)
  from A B show ?thesis ..
qed

subsection \<open>Rounding and the order\<close>

text \<open>
  Rounding is monotone against the numbers it can represent: a number that is at most a
  multiple of a power of two at least the unit in the last place rounds to at most that
  multiple, and likewise from below. For an age of \<open>n\<close> seconds and a bound of
  \<open>m\<close> days below \<open>2 ^ 36\<close>, the floats next to \<open>m\<close> are less than one second
  (\<open>1 / 86400\<close> of a day) apart, so the float of \<open>n / 86400\<close> is on the same side of
  \<open>m\<close> as the age itself.
\<close>

lemma round_half_even_le: "x \<le> of_int z \<Longrightarrow> round_half_even x \<le> z"
proof -
  assume xz: "x \<le> of_int z"
  have f: "\<lfloor>x\<rfloor> \<le> z"
    using xz by (simp add: floor_le_iff)
  show ?thesis
  proof (cases "x - of_int \<lfloor>x\<rfloor> < 1 / 2")
    case True
    with f show ?thesis
      by (simp add: round_half_even_def Let_def)
  next
    case False
    then have "of_int \<lfloor>x\<rfloor> < x"
      by linarith
    with xz have "(of_int \<lfloor>x\<rfloor> :: rat) < of_int z"
      by linarith
    then have "\<lfloor>x\<rfloor> < z"
      by simp
    then have "\<lfloor>x\<rfloor> + 1 \<le> z"
      by simp
    with f show ?thesis
      by (simp add: round_half_even_def Let_def)
  qed
qed

lemma round_half_even_ge: "of_int z \<le> x \<Longrightarrow> z \<le> round_half_even x"
proof -
  assume "of_int z \<le> x"
  then have "z \<le> \<lfloor>x\<rfloor>"
    by (simp add: le_floor_iff)
  then show ?thesis
    by (simp add: round_half_even_def Let_def)
qed

lemma grid_point:
  assumes "max (binade q - 52) (- 1074) \<le> j"
  shows "\<exists>Z. of_int K * 2 powi j = of_int Z * ulp q"
proof -
  define g where "g = max (binade q - 52) (- 1074)"
  have "j = (j - g) + g"
    by simp
  then have "(2::rat) powi j = 2 powi (j - g) * 2 powi g"
    by (metis power_int_add zero_neq_numeral)
  moreover have "(2::rat) powi (j - g) = 2 ^ nat (j - g)"
    using assms by (simp add: g_def power_int_nonneg_exp)
  ultimately have "of_int K * 2 powi j = of_int (K * 2 ^ nat (j - g)) * ulp q"
    by (simp add: ulp_def g_def)
  then show ?thesis ..
qed

lemma round_pos_le_grid:
  assumes "max (binade q - 52) (- 1074) \<le> j" and "q \<le> of_int K * 2 powi j"
  shows "round_pos q \<le> of_int K * 2 powi j"
proof -
  from grid_point [OF assms(1)] obtain Z where Z: "of_int K * 2 powi j = of_int Z * ulp q"
    by blast
  have "q / ulp q \<le> of_int Z"
    using assms(2) ulp_pos [of q] by (simp add: Z field_simps)
  then have "round_half_even (q / ulp q) \<le> Z"
    by (rule round_half_even_le)
  then have "(of_int (round_half_even (q / ulp q)) :: rat) \<le> of_int Z"
    by simp
  then show ?thesis
    using ulp_pos [of q] by (simp add: round_pos_def Z)
qed

lemma round_pos_ge_grid:
  assumes "max (binade q - 52) (- 1074) \<le> j" and "of_int K * 2 powi j \<le> q"
  shows "of_int K * 2 powi j \<le> round_pos q"
proof -
  from grid_point [OF assms(1)] obtain Z where Z: "of_int K * 2 powi j = of_int Z * ulp q"
    by blast
  have "of_int Z \<le> q / ulp q"
    using assms(2) ulp_pos [of q] by (simp add: Z field_simps)
  then have "Z \<le> round_half_even (q / ulp q)"
    by (rule round_half_even_ge)
  then have "(of_int Z :: rat) \<le> of_int (round_half_even (q / ulp q))"
    by simp
  then show ?thesis
    using ulp_pos [of q] by (simp add: round_pos_def Z)
qed

lemma binade_less:
  assumes "0 < q" and "q < 2 powi e"
  shows "binade q < e"
proof (rule ccontr)
  assume "\<not> binade q < e"
  then have "e \<le> binade q"
    by simp
  then have "(2::rat) powi e \<le> 2 powi (binade q)"
    by (intro power_int_increasing) simp_all
  with binade_bounds [OF assms(1)] assms(2) show False
    by linarith
qed

lemma binade_ge:
  assumes "0 < q" and "2 powi e \<le> q"
  shows "e \<le> binade q"
proof (rule ccontr)
  assume "\<not> e \<le> binade q"
  then have "binade q + 1 \<le> e"
    by simp
  then have "(2::rat) powi (binade q + 1) \<le> 2 powi e"
    by (intro power_int_increasing) simp_all
  with binade_bounds [OF assms(1)] assms(2) show False
    by linarith
qed

lemma age_within:
  assumes "0 \<le> n" and "0 \<le> m" and "m < 2 ^ 36" and "n \<le> 86400 * m"
  shows "\<exists>r. truediv n 86400 = Inr r \<and> r \<le> of_int m"
proof (cases "n = 0")
  case True
  with assms(2) show ?thesis
    by (simp add: truediv_def to_float_def round_double_def)
next
  case False
  define q :: rat where "q = of_int n / 86400"
  have q0: "0 < q"
    using False assms(1) by (simp add: q_def)
  have "(of_int n :: rat) \<le> of_int (86400 * m)"
    using assms(4) by (rule of_int_le_iff [THEN iffD2])
  then have qm: "q \<le> of_int m"
    by (simp add: q_def)
  have "(of_int m :: rat) < of_int (2 ^ 36)"
    using assms(3) by (rule of_int_less_iff [THEN iffD2])
  then have "q < 2 powi 36"
    using qm by simp
  from binade_less [OF q0 this] have g: "max (binade q - 52) (- 1074) \<le> 0"
    by simp
  from round_pos_le_grid [OF g, of m] qm have le: "round_pos q \<le> of_int m"
    by simp
  have rd: "round_double q = round_pos q"
    using q0 by (simp add: round_double_def)
  have nn: "0 \<le> round_pos q"
    using round_double_nonneg [of q] q0 rd by simp
  have "of_int m < (2::rat) ^ 1024"
  proof -
    have "(of_int m :: rat) < 2 ^ 36"
      using \<open>(of_int m :: rat) < of_int (2 ^ 36)\<close> by simp
    also have "\<dots> \<le> 2 ^ 1024"
      by (rule power_increasing) simp_all
    finally show ?thesis .
  qed
  with le nn rd have "to_float q = Finite (round_pos q)"
    by (simp add: to_float_def Let_def)
  with le show ?thesis
    by (simp add: truediv_def q_def)
qed

lemma age_beyond:
  assumes "0 \<le> m" and "m < 2 ^ 36" and "86400 * m < n"
  shows "truediv n 86400 = Inl OverflowError
         \<or> (\<exists>r. truediv n 86400 = Inr r \<and> of_int m < r)"
proof -
  define q :: rat where "q = of_int n / 86400"
  have n1: "86400 * m + 1 \<le> n"
    using assms(3) by simp
  then have "(of_int (86400 * m + 1) :: rat) \<le> of_int n"
    by (rule of_int_le_iff [THEN iffD2])
  then have lo: "of_int m + 1 / 86400 \<le> q"
    by (simp add: q_def field_simps)
  have m0: "(0::rat) \<le> of_int m"
    using assms(1) by simp
  with lo have q0: "0 < q"
    by linarith
  have rd: "round_double q = round_pos q"
    using q0 by (simp add: round_double_def)
  have gt: "of_int m < round_pos q"
  proof (cases "q < 2 powi 36")
    case True
    from binade_less [OF q0 this] have g: "max (binade q - 52) (- 1074) \<le> - 17"
      by simp
    have x: "(of_int (m * 2 ^ 17 + 1) :: rat) * 2 powi (- 17) = of_int m + 1 / 131072"
      by (simp add: field_simps)
    have "of_int m + 1 / 131072 \<le> q"
      using lo by simp
    with round_pos_ge_grid [OF g, of "m * 2 ^ 17 + 1"] x
    have "of_int m + 1 / 131072 \<le> round_pos q"
      by simp
    then show ?thesis
      by linarith
  next
    case False
    then have big: "2 powi 36 \<le> q"
      by simp
    from binade_ge [OF q0 this] have e: "36 \<le> binade q" .
    then have g: "max (binade q - 52) (- 1074) \<le> binade q"
      by simp
    from round_pos_ge_grid [OF g, of 1] binade_bounds [OF q0]
    have "2 powi (binade q) \<le> round_pos q"
      by simp
    moreover have "(2::rat) powi 36 \<le> 2 powi (binade q)"
      using e by (intro power_int_increasing) simp_all
    moreover have "(of_int m :: rat) < 2 powi 36"
    proof -
      have "(of_int m :: rat) < of_int (2 ^ 36)"
        using assms(2) by (rule of_int_less_iff [THEN iffD2])
      then show ?thesis by simp
    qed
    ultimately show ?thesis
      by linarith
  qed
  show ?thesis
  proof (cases "to_float q")
    case (Finite r)
    then have "r = round_pos q"
      using rd by (auto simp: to_float_def Let_def split: if_splits)
    with gt Finite show ?thesis
      by (simp add: truediv_def q_def)
  qed (simp_all add: truediv_def q_def)
qed

subsection \<open>Floats of the examples\<close>

text \<open>
  Floor and ceiling of a quotient of numerals, by integer division; with them the
  definitions of the floats evaluate. The float of \<open>3 / 5\<close> is not \<open>3 / 5\<close>, but
  \<open>40.0 + (3 / 5) * 50.0\<close> is \<open>70.0\<close>. The float of \<open>2 ^ 37\<close> days and one second,
  in days, is \<open>2 ^ 37\<close>.
\<close>

lemma floor_rat_numeral_div:
  "\<lfloor>(numeral a / numeral b :: rat)\<rfloor> = numeral a div numeral b"
  using floor_divide_of_int_eq [of "numeral a" "numeral b", where ?'a = rat] by simp

lemma ceiling_rat_numeral_div:
  "\<lceil>(numeral a / numeral b :: rat)\<rceil> = - (- numeral a div numeral b)"
proof -
  have "\<lceil>(numeral a / numeral b :: rat)\<rceil> = - \<lfloor>- (numeral a / numeral b :: rat)\<rfloor>"
    by (simp add: ceiling_def)
  also have "- (numeral a / numeral b :: rat) = of_int (- numeral a) / of_int (numeral b)"
    by simp
  also have "\<lfloor>\<dots>\<rfloor> = - numeral a div numeral b"
    by (rule floor_divide_of_int_eq)
  finally show ?thesis .
qed

lemmas float_eval = to_float_def round_double_def round_pos_def ulp_def binade_def
  round_half_even_def bit_length.simps Let_def floor_rat_numeral_div ceiling_rat_numeral_div

lemma three_fifths: "truediv 3 5 = Inr (5404319552844595 / 9007199254740992)"
  by (simp add: truediv_def float_eval)

lemma seventy: "ratio_percent (5404319552844595 / 9007199254740992) = Finite 70"
  by (simp add: ratio_percent_def py_min_def float_eval)

lemma quotient_rounds_to_bound: "truediv 11874725579980801 86400 = Inr 137438953472"
  by (simp add: truediv_def float_eval)

lemma zero_age: "truediv 0 86400 = Inr 0"
  by (simp add: truediv_def to_float_def round_double_def)

section \<open>The percentage stays in range under the phrase matcher\<close>

text \<open>
  The steps of the phrase matcher keep the percentage in range: the fixed percentages of
  the three tables are in range, and the computed one is between 0 and 90, as a
  captured number is not negative. A step that raises leaves the percentage as it was or
  sets it to a percentage of the tables.
\<close>

lemma in_range_update:
  "0 \<le> v \<Longrightarrow> v \<le> 100 \<Longrightarrow>
   percent_in_range (update_progress now st (Some v) a b c d l)"
  by (simp add: percent_in_range_def update_progress_percent)

lemma in_range_log_event:
  "percent_in_range l \<Longrightarrow> percent_in_range (log_event now ty l)"
  by (simp add: percent_in_range_def log_event_progress)

lemma in_range_login_loop:
  "percent_in_range l \<Longrightarrow> \<forall>e \<in> set ps. 0 \<le> snd (snd e) \<and> snd (snd e) \<le> 100 \<Longrightarrow>
   login_loop now line ps l = Some l' \<Longrightarrow> percent_in_range l'"
proof (induction ps)
  case Nil
  then show ?case by simp
next
  case (Cons e ps)
  obtain pattern stage percent where e: "e = (pattern, stage, percent)"
    by (cases e)
  show ?case
  proof (cases "re_search pattern line")
    case None
    with Cons e show ?thesis by simp
  next
    case (Some gs)
    with Cons.prems e show ?thesis
      by (auto simp: in_range_update)
  qed
qed

lemma in_range_ratio:
  assumes "percent_in_range l"
  shows "percent_in_range
           (case py_int ga of
              Inl e \<Rightarrow> l
            | Inr n_completed \<Rightarrow>
                (case py_int gb of
                   Inl e \<Rightarrow> l
                 | Inr n_total \<Rightarrow>
                     if 0 < n_total then
                       (case truediv n_completed n_total of
                          Inl e \<Rightarrow> l
                        | Inr r \<Rightarrow>
                            (case ratio_percent r of
                               Finite v \<Rightarrow>
                                 update_progress now (Some stage) (Some v)
                                   (Some n_total) (Some n_completed) None None l
                             | _ \<Rightarrow> l))
                     else l))"
proof (cases "py_int ga")
  case (Inl e)
  with assms show ?thesis by simp
next
  case ga: (Inr x)
  show ?thesis
  proof (cases "py_int gb")
    case (Inl e)
    with ga assms show ?thesis by simp
  next
    case gb: (Inr y)
    show ?thesis
    proof (cases "0 < y")
      case False
      with ga gb assms show ?thesis by simp
    next
      case y: True
      show ?thesis
      proof (cases "truediv x y")
        case (Inl e)
        with ga gb y assms show ?thesis by simp
      next
        case (Inr r)
        from truediv_nonneg [OF py_int_nonneg [OF ga] y Inr]
        obtain v where v: "ratio_percent r = Finite v" and "0 \<le> v" and "v \<le> 90"
          using ratio_percent_range by blast
        then show ?thesis
          using ga gb y Inr by (simp add: in_range_update)
      qed
    qed
  qed
qed

lemma in_range_crawl_update:
  assumes "percent_in_range l" and "\<And>v. pc = Some v \<Longrightarrow> 0 \<le> v \<and> v \<le> 100"
  shows "percent_in_range (crawl_update now pattern stage pc gs l)"
proof (cases pc)
  case (Some v)
  with assms(2) [of v] show ?thesis
    by (simp add: crawl_update_def in_range_update)
next
  case None
  show ?thesis
  proof (cases gs)
    case Nil
    with None assms show ?thesis by (simp add: crawl_update_def)
  next
    case (Cons g1 rest)
    show ?thesis
    proof (cases rest)
      case Nil
      with None Cons assms show ?thesis by (simp add: crawl_update_def)
    next
      case (Cons g2 more)
      with None \<open>gs = g1 # rest\<close> assms(1) in_range_ratio [OF assms(1), where ga = g1 and gb = g2 and now = now and stage = stage]
      show ?thesis
        by (simp add: crawl_update_def)
    qed
  qed
qed

lemma in_range_crawl_loop:
  "percent_in_range l \<Longrightarrow>
   \<forall>e \<in> set ps. \<forall>v. snd (snd e) = Some v \<longrightarrow> 0 \<le> v \<and> v \<le> 100 \<Longrightarrow>
   crawl_loop now line ps l = Some l' \<Longrightarrow> percent_in_range l'"
proof (induction ps)
  case Nil
  then show ?case by simp
next
  case (Cons e ps)
  obtain pattern stage percent where e: "e = (pattern, stage, percent)"
    by (cases e)
  show ?case
  proof (cases "re_search pattern line")
    case None
    with Cons e show ?thesis by simp
  next
    case (Some gs)
    with Cons.prems e show ?thesis
      by (auto intro!: in_range_crawl_update)
  qed
qed

lemma in_range_save_update:
  "0 \<le> v \<Longrightarrow> v \<le> 100 \<Longrightarrow> percent_in_range (save_update now stage v gs l)"
  by (auto simp: save_update_def Let_def in_range_update split: option.splits list.splits
        sum.splits)

lemma in_range_save_loop:
  "percent_in_range l \<Longrightarrow> \<forall>e \<in> set ps. 0 \<le> snd (snd e) \<and> snd (snd e) \<le> 100 \<Longrightarrow>
   save_loop now line ps l = Some l' \<Longrightarrow> percent_in_range l'"
proof (induction ps)
  case Nil
  then show ?case by simp
next
  case (Cons e ps)
  obtain pattern stage percent where e: "e = (pattern, stage, percent)"
    by (cases e)
  show ?case
  proof (cases "re_search pattern line")
    case None
    with Cons e show ?thesis by simp
  next
    case (Some gs)
    with Cons.prems e show ?thesis
      by (auto simp: in_range_save_update)
  qed
qed

lemma in_range_event_loop:
  "percent_in_range l \<Longrightarrow> event_loop now line ty ps l = Some l' \<Longrightarrow> percent_in_range l'"
  by (induction ps) (auto simp: in_range_log_event split: option.splits)

lemma in_range_parse:
  assumes "percent_in_range l"
  shows "percent_in_range (parse_progress_from_line now line l)"
proof -
  have lp: "\<forall>e \<in> set login_patterns. 0 \<le> snd (snd e) \<and> snd (snd e) \<le> 100"
    by (simp add: login_patterns_def)
  have cp: "\<forall>e \<in> set crawl_patterns. \<forall>v. snd (snd e) = Some v \<longrightarrow> 0 \<le> v \<and> v \<le> 100"
    by (simp add: crawl_patterns_def)
  have sp: "\<forall>e \<in> set save_patterns. 0 \<le> snd (snd e) \<and> snd (snd e) \<le> 100"
    by (simp add: save_patterns_def)
  show ?thesis
    unfolding parse_progress_from_line_def
    using assms in_range_login_loop [OF assms lp] in_range_crawl_loop [OF assms cp]
          in_range_save_loop [OF assms sp] in_range_event_loop [OF assms]
    by (auto split: option.splits)
qed

lemma in_range_drain:
  "percent_in_range l \<Longrightarrow> percent_in_range (snd (snd (drain ls (outs, errs, l))))"
proof (induction ls arbitrary: outs errs l)
  case Nil
  then show ?case by simp
next
  case (Cons x ls)
  obtain t sl where x: "x = (t, sl)"
    by (cases x)
  show ?case
  proof (cases sl)
    case (Stdout raw)
    with Cons x show ?thesis
      by (simp add: Let_def in_range_parse)
  next
    case (Stderr raw)
    with Cons x show ?thesis
      by (simp add: Let_def in_range_log_event)
  qed
qed

text \<open>
  Claim C7, as amended. Starting from the snapshot of a new journal, after the lines of
  any output of the process have gone through the reader of the adapter (the standard
  output through the phrase matcher), the percentage lies within 0 and 100. The output
  is any list of lines, so this holds after each line.
\<close>

theorem C7_matcher_keeps_percent_in_range:
  "0 \<le> progress_percent (progress (snd (snd (drain ls ([], [], TaskLogger_init now tid pf)))))
   \<and> progress_percent (progress (snd (snd (drain ls ([], [], TaskLogger_init now tid pf))))) \<le> 100"
proof -
  have "percent_in_range (TaskLogger_init now tid pf)"
    by (simp add: percent_in_range_def TaskLogger_init_def)
  then have "percent_in_range (snd (snd (drain ls ([], [], TaskLogger_init now tid pf))))"
    by (rule in_range_drain)
  then show ?thesis
    by (simp add: percent_in_range_def)
qed

text \<open>
  Claim C7, counterexample to the claim as stated: \<open>update_progress\<close> stores the
  percentage it is given; a direct call with 150 leaves 150 in the snapshot.
\<close>

theorem C7_counterexample:
  "progress_percent
     (progress (update_progress 1 None (Some 150) None None None None fresh_logger)) = 150
   \<and> \<not> progress_percent
          (progress (update_progress 1 None (Some 150) None None None None fresh_logger)) \<le> 100"
  by (simp add: update_progress_percent)

section \<open>Progress from the ratio phrase\<close>

text \<open>
  The patterns are tried in order and the first that matches decides. A line that
  matches no login pattern and neither of the two crawl patterns before the ratio
  pattern, and that matches the ratio pattern, is handled by the branch of the ratio.
\<close>

lemma login_loop_none:
  "\<forall>e \<in> set ps. re_search (fst e) line = None \<Longrightarrow> login_loop now line ps l = None"
  by (induction ps) auto

lemma ratio_pattern_has_phrase: "contains (lits zh_yi_paqu) ratio_pattern"
  by (simp add: ratio_pattern_def lits_def zh_yi_paqu_def)

lemma ratio_branch:
  assumes "\<forall>e \<in> set login_patterns. re_search (fst e) line = None"
    and "re_search start_crawl_pattern line = None"
    and "re_search page_pattern line = None"
    and "re_search ratio_pattern line = Some [gx, gy]"
  shows "parse_progress_from_line now line l
         = crawl_update now ratio_pattern ''crawling'' None [gx, gy] l"
  using assms(2-4)
  by (simp add: parse_progress_from_line_def login_loop_none [OF assms(1)] crawl_patterns_def)

text \<open>
  Claim C5, as amended. For a line that matches no login pattern and neither of the
  two crawl patterns before the ratio pattern (the start of the crawl and the page
  number), and that matches the ratio pattern with two groups that \<open>int\<close> reads as X
  and Y (each of at most 4300 digits), Y > 0, with the quotient X / Y within the range of
  a float: the percentage becomes the float \<open>min(40.0 + (X / Y) * 50.0, 90.0)\<close>, each
  operation rounded to the nearest float, the total becomes Y and the completed count
  becomes X.
\<close>

theorem C5_ratio_progress_as_float:
  assumes "\<forall>e \<in> set login_patterns. re_search (fst e) line = None"
    and "re_search start_crawl_pattern line = None"
    and "re_search page_pattern line = None"
    and "re_search ratio_pattern line = Some [gx, gy]"
    and "py_int gx = Inr X"
    and "py_int gy = Inr Y"
    and "0 < Y"
    and "truediv X Y = Inr r"
  shows "Finite (progress_percent (progress (parse_progress_from_line now line l)))
           = ratio_percent r
         \<and> items_total (progress (parse_progress_from_line now line l)) = Y
         \<and> items_completed (progress (parse_progress_from_line now line l)) = X"
proof -
  have "0 \<le> X"
    using assms(5) by (rule py_int_nonneg)
  then have "0 \<le> r"
    using assms(7,8) by (rule truediv_nonneg)
  then obtain v where v: "ratio_percent r = Finite v"
    using ratio_percent_range by blast
  have "parse_progress_from_line now line l
        = update_progress now (Some ''crawling'') (Some v) (Some Y) (Some X) None None l"
    using assms(5-8) v
    by (simp add: ratio_branch [OF assms(1-4)] crawl_update_def ratio_pattern_has_phrase)
  then show ?thesis
    by (simp add: v update_progress_percent update_progress_total update_progress_completed)
qed

text \<open>
  When a conversion or the division raises (a group of more than 4300 digits, a
  quotient beyond the largest float), the handler of the function ignores the exception
  and the journal is as it was.
\<close>

lemma ratio_exception_is_ignored:
  assumes "\<forall>e \<in> set login_patterns. re_search (fst e) line = None"
    and "re_search start_crawl_pattern line = None"
    and "re_search page_pattern line = None"
    and "re_search ratio_pattern line = Some [gx, gy]"
    and "(\<exists>e. py_int gx = Inl e) \<or> (\<exists>e. py_int gy = Inl e)
         \<or> (\<exists>X Y e. py_int gx = Inr X \<and> py_int gy = Inr Y \<and> truediv X Y = Inl e)"
  shows "parse_progress_from_line now line l = l"
  using assms(5)
  by (auto simp: ratio_branch [OF assms(1-4)] crawl_update_def ratio_pattern_has_phrase
        split: sum.splits)

lemmas zh_defs = zh_kaishi_denglu_def zh_denglu_chenggong_def zh_saoma_denglu_def
  zh_shouji_denglu_def zh_kaishi_paqu_def zh_zhengzai_paqu_di_def zh_ye_def zh_yi_paqu_def
  zh_paqu_def zh_gong_def zh_tiao_def

lemmas rx_defs = lits_def asc_def rx_eval

lemma ratio_line_search:
  shows "\<forall>e \<in> set login_patterns. re_search (fst e) ratio_line = None"
    and "re_search start_crawl_pattern ratio_line = None"
    and "re_search page_pattern ratio_line = None"
    and "re_search ratio_pattern ratio_line = Some [asc ''3'', asc ''5'']"
  by (simp_all add: login_patterns_def start_crawl_pattern_def page_pattern_def
        ratio_pattern_def ratio_line_def zh_defs rx_defs)

lemma py_int_3: "py_int (asc ''3'') = Inr 3"
  by (simp add: asc_def rx_eval)

lemma py_int_5: "py_int (asc ''5'') = Inr 5"
  by (simp add: asc_def rx_eval)

text \<open>
  Claim C5, witness: the line (yi pa qu 3/5) gives 70 percent, 5 in total and 3
  completed.
\<close>

theorem C5_ratio_progress_as_float_witness:
  "re_search (lits zh_kaishi_denglu) ratio_line = None
   \<and> re_search (lits zh_denglu_chenggong) ratio_line = None
   \<and> re_search (lits zh_saoma_denglu) ratio_line = None
   \<and> re_search (lits zh_shouji_denglu) ratio_line = None
   \<and> re_search start_crawl_pattern ratio_line = None
   \<and> re_search page_pattern ratio_line = None
   \<and> re_search ratio_pattern ratio_line = Some [asc ''3'', asc ''5'']
   \<and> py_int (asc ''3'') = Inr 3
   \<and> py_int (asc ''5'') = Inr 5
   \<and> truediv 3 5 = Inr (5404319552844595 / 9007199254740992)
   \<and> ratio_percent (5404319552844595 / 9007199254740992) = Finite 70
   \<and> progress_percent (progress (parse_progress_from_line 10 ratio_line fresh_logger)) = 70
   \<and> items_total (progress (parse_progress_from_line 10 ratio_line fresh_logger)) = 5
   \<and> items_completed (progress (parse_progress_from_line 10 ratio_line fresh_logger)) = 3"
proof -
  from C5_ratio_progress_as_float
         [OF ratio_line_search py_int_3 py_int_5 _ three_fifths, of 10 fresh_logger]
  have "Finite (progress_percent (progress (parse_progress_from_line 10 ratio_line fresh_logger)))
          = ratio_percent (5404319552844595 / 9007199254740992)
        \<and> items_total (progress (parse_progress_from_line 10 ratio_line fresh_logger)) = 5
        \<and> items_completed (progress (parse_progress_from_line 10 ratio_line fresh_logger)) = 3"
    by simp
  with ratio_line_search py_int_3 py_int_5 three_fifths seventy
  show ?thesis
    by (simp add: login_patterns_def)
qed

text \<open>
  Claim C5, counterexample to the claim as stated: the second line matches the ratio
  pattern with X = 3 and Y = 5, for which the formula gives 70, but the pattern of the
  start of the crawl matches it first; the percentage becomes 40 and the counts stay 0.
\<close>

theorem C5_counterexample:
  "re_search ratio_pattern start_and_ratio_line = Some [asc ''3'', asc ''5'']
   \<and> py_int (asc ''3'') = Inr 3
   \<and> py_int (asc ''5'') = Inr 5
   \<and> truediv 3 5 = Inr (5404319552844595 / 9007199254740992)
   \<and> ratio_percent (5404319552844595 / 9007199254740992) = Finite 70
   \<and> progress_percent (progress (parse_progress_from_line 10 start_and_ratio_line fresh_logger)) = 40
   \<and> items_total (progress (parse_progress_from_line 10 start_and_ratio_line fresh_logger)) = 0
   \<and> items_completed (progress (parse_progress_from_line 10 start_and_ratio_line fresh_logger)) = 0"
proof -
  have a: "re_search ratio_pattern start_and_ratio_line = Some [asc ''3'', asc ''5'']"
    by (simp add: ratio_pattern_def start_and_ratio_line_def zh_defs rx_defs)
  have b: "\<forall>e \<in> set login_patterns. re_search (fst e) start_and_ratio_line = None"
    by (simp add: login_patterns_def start_and_ratio_line_def zh_defs rx_defs)
  have c: "re_search start_crawl_pattern start_and_ratio_line \<noteq> None"
    by (simp add: start_crawl_pattern_def start_and_ratio_line_def zh_defs rx_defs)
  have d: "progress (parse_progress_from_line 10 start_and_ratio_line fresh_logger)
           = progress (update_progress 10 (Some ''crawling'') (Some 40) None None None None
                         fresh_logger)"
    using c by (auto simp: parse_progress_from_line_def login_loop_none [OF b] crawl_patterns_def
          crawl_update_def)
  show ?thesis
    unfolding d
    by (simp add: a py_int_3 py_int_5 three_fifths seventy update_progress_percent
          update_progress_total update_progress_completed fresh_logger_def TaskLogger_init_def)
qed

section \<open>The credential cache: age bound and empty blobs\<close>

text \<open>
  Claim C6, as amended. \<open>load_cookies\<close> returns nothing when the platform has no
  file. For a bound from 0 to less than \<open>2 ^ 36\<close> days: it returns nothing when the
  age of the entry, in days, is greater than the bound; and when the entry was not saved
  after the time of the read, its age is at most the bound (the bound itself included)
  and the saved blob is a non-empty string, it returns the blob. The code compares the
  float of the age with the bound; within these bounds the float is on the same side.
\<close>

theorem C6_load_cookies_in_range:
  "(dir p = None \<longrightarrow> load_cookies now p max_age dir = None)
   \<and> (\<forall>d. dir p = Some (Json d) \<and> 0 \<le> max_age \<and> max_age < 2 ^ 36
          \<and> age_days now d > of_int max_age
          \<longrightarrow> load_cookies now p max_age dir = None)
   \<and> (\<forall>d c. dir p = Some (Json d) \<and> 0 \<le> max_age \<and> max_age < 2 ^ 36
            \<and> 0 \<le> age_days now d \<and> age_days now d \<le> of_int max_age
            \<and> cookies d = Some c \<and> c \<noteq> []
          \<longrightarrow> load_cookies now p max_age dir = Some c)"
proof (intro conjI allI impI)
  assume "dir p = None"
  then show "load_cookies now p max_age dir = None"
    by (simp add: load_cookies_def)
next
  fix d
  assume h: "dir p = Some (Json d) \<and> 0 \<le> max_age \<and> max_age < 2 ^ 36
             \<and> age_days now d > of_int max_age"
  define n where "n = now - (case saved_time d of Some t \<Rightarrow> t | None \<Rightarrow> 0)"
  from h have "(of_int max_age :: rat) < of_int n / 86400"
    by (simp add: age_days_def n_def)
  then have "(of_int (86400 * max_age) :: rat) < of_int n"
    by (simp add: field_simps)
  then have "86400 * max_age < n"
    by (simp only: of_int_less_iff)
  with h age_beyond [of max_age n]
  have "truediv n 86400 = Inl OverflowError
        \<or> (\<exists>r. truediv n 86400 = Inr r \<and> of_int max_age < r)"
    by simp
  with h show "load_cookies now p max_age dir = None"
    by (auto simp: load_cookies_def Let_def n_def)
next
  fix d c
  assume h: "dir p = Some (Json d) \<and> 0 \<le> max_age \<and> max_age < 2 ^ 36
             \<and> 0 \<le> age_days now d \<and> age_days now d \<le> of_int max_age
             \<and> cookies d = Some c \<and> c \<noteq> []"
  define n where "n = now - (case saved_time d of Some t \<Rightarrow> t | None \<Rightarrow> 0)"
  from h have "(0::rat) \<le> of_int n / 86400" and "(of_int n :: rat) / 86400 \<le> of_int max_age"
    by (simp_all add: age_days_def n_def)
  then have "(0::rat) \<le> of_int n" and "(of_int n :: rat) \<le> of_int (86400 * max_age)"
    by (simp_all add: field_simps)
  then have "0 \<le> n" and "n \<le> 86400 * max_age"
    by (simp_all only: of_int_le_iff of_int_0_le_iff)
  with h age_within [of n max_age]
  obtain r where "truediv n 86400 = Inr r" and "r \<le> of_int max_age"
    by auto
  with h show "load_cookies now p max_age dir = Some c"
    by (auto simp: load_cookies_def Let_def n_def)
qed

text \<open>
  Claim C6, witness: no file; a blob saved at time 100 and read one second after the
  seven days; the same blob read at exactly seven days.
\<close>

theorem C6_load_cookies_in_range_witness:
  "load_cookies 5 ''xhs'' 7 Map.empty = None
   \<and> load_cookies (101 + 7 * 86400) ''xhs'' 7
        (snd (save_cookies 100 ''xhs'' (asc ''a=1; b=2'') None Map.empty)) = None
   \<and> load_cookies (100 + 7 * 86400) ''xhs'' 7
        (snd (save_cookies 100 ''xhs'' (asc ''a=1; b=2'') None Map.empty))
       = Some (asc ''a=1; b=2'')"
  using C6_load_cookies_in_range [of Map.empty "''xhs''" 5 7]
        C6_load_cookies_in_range
          [of "snd (save_cookies 100 ''xhs'' (asc ''a=1; b=2'') None Map.empty)"
              "''xhs''" "101 + 7 * 86400" 7]
        C6_load_cookies_in_range
          [of "snd (save_cookies 100 ''xhs'' (asc ''a=1; b=2'') None Map.empty)"
              "''xhs''" "100 + 7 * 86400" 7]
  by (simp add: save_cookies_def age_days_def asc_def)

text \<open>
  Claim C6, counterexample to the claim as stated: the empty blob saved at time 100 and
  read at once is within the bound of seven days, and \<open>load_cookies\<close> does not return
  it; and a blob read \<open>2 ^ 37\<close> days and one second after it was saved, with the bound
  \<open>2 ^ 37\<close>, is older than the bound, and \<open>load_cookies\<close> returns it, as the float
  of its age is \<open>2 ^ 37\<close>.
\<close>

theorem C6_counterexample:
  "snd (save_cookies 100 ''xhs'' [] None Map.empty) ''xhs''
     = Some (Json \<lparr> cd_platform = ''xhs'', cookies = Some [], cd_task_id = None,
                     saved_time = Some 100 \<rparr>)
   \<and> age_days 100 \<lparr> cd_platform = ''xhs'', cookies = Some [], cd_task_id = None,
                   saved_time = Some 100 \<rparr> \<le> 7
   \<and> load_cookies 100 ''xhs'' 7 (snd (save_cookies 100 ''xhs'' [] None Map.empty)) \<noteq> Some []
   \<and> snd (save_cookies 0 ''xhs'' (asc ''a=1'') None Map.empty) ''xhs''
       = Some (Json \<lparr> cd_platform = ''xhs'', cookies = Some (asc ''a=1''),
                       cd_task_id = None, saved_time = Some 0 \<rparr>)
   \<and> age_days 11874725579980801
        \<lparr> cd_platform = ''xhs'', cookies = Some (asc ''a=1''), cd_task_id = None,
          saved_time = Some 0 \<rparr> > 137438953472
   \<and> load_cookies 11874725579980801 ''xhs'' 137438953472
        (snd (save_cookies 0 ''xhs'' (asc ''a=1'') None Map.empty)) = Some (asc ''a=1'')"
  by (simp add: save_cookies_def load_cookies_def age_days_def asc_def quotient_rounds_to_bound
        zero_age)

text \<open>
  Claim C10. When the file of the platform exists, its age is within the bound and its
  \<open>cookies\<close> field is missing or empty, \<open>load_cookies\<close> returns nothing, which is
  what it returns when the file is absent.
\<close>

theorem C10_empty_blob_as_absent:
  assumes "dir p = Some (Json d)"
    and "age_days now d \<le> of_int max_age"
    and "cookies d = None \<or> cookies d = Some []"
  shows "load_cookies now p max_age dir = None
         \<and> load_cookies now p max_age dir = load_cookies now p max_age (dir(p := None))"
  using assms by (auto simp: load_cookies_def Let_def split: sum.splits)

text \<open>Claim C10, witness: the empty blob saved at time 100 and read at time 200.\<close>

theorem C10_empty_blob_as_absent_witness:
  "snd (save_cookies 100 ''xhs'' [] None Map.empty) ''xhs''
     = Some (Json \<lparr> cd_platform = ''xhs'', cookies = Some [], cd_task_id = None,
                     saved_time = Some 100 \<rparr>)
   \<and> age_days 200 \<lparr> cd_platform = ''xhs'', cookies = Some [], cd_task_id = None,
                     saved_time = Some 100 \<rparr> \<le> 7
   \<and> load_cookies 200 ''xhs'' 7 (snd (save_cookies 100 ''xhs'' [] None Map.empty)) = None
   \<and> load_cookies 200 ''xhs'' 7 (snd (save_cookies 100 ''xhs'' [] None Map.empty))
       = load_cookies 200 ''xhs'' 7
           ((snd (save_cookies 100 ''xhs'' [] None Map.empty))(''xhs'' := None))"
proof -
  let ?d = "\<lparr> cd_platform = ''xhs'', cookies = Some [], cd_task_id = None,
              saved_time = Some (100::int) \<rparr>"
  have h1: "snd (save_cookies 100 ''xhs'' [] None Map.empty) ''xhs'' = Some (Json ?d)"
    by (simp add: save_cookies_def)
  have h2: "age_days 200 ?d \<le> 7"
    by (simp add: age_days_def)
  have h2': "age_days 200 ?d \<le> of_int 7"
    using h2 by simp
  have h3: "cookies ?d = None \<or> cookies ?d = Some []"
    by simp
  from C10_empty_blob_as_absent
         [of "snd (save_cookies 100 ''xhs'' [] None Map.empty)" "''xhs''" ?d 200 7,
          OF h1 h2' h3] h1 h2
  show ?thesis
    by blast
qed

section \<open>Submission and the target set\<close>

text \<open>
  The endpoint \<open>POST /api/v1/tasks\<close> rejects a submission whose target set does not
  match its job type with status 400 and leaves the server unchanged; it accepts a
  submission on a key of \<open>PLATFORM_MAPPING\<close> whose target set matches its job type.
\<close>

lemma create_crawler_task_validation:
  "(target_mismatch request \<longrightarrow>
      create_crawler_task now new_id request srv = (HTTPException 400, srv))
   \<and> (target_match request \<and> map_of PLATFORM_MAPPING (platform request) \<noteq> None \<longrightarrow>
        fst (create_crawler_task now new_id request srv) = Response new_id
        \<and> running_tasks (crawler_adapter (snd (create_crawler_task now new_id request srv))) new_id
           = Some Pending)"
  by (auto simp: target_mismatch_def target_match_def create_crawler_task_def
        CrawlerTaskType_of_def start_crawler_task_def create_task_logger_def Let_def
        split: option.splits prod.splits)

text \<open>
  Claim C8, the code at the failing input. The endpoints \<open>POST /api/v1/xhs/search\<close>
  and \<open>POST /api/v1/douyin/search\<close> get a request with the empty list of keywords:
  the job is a search without keywords, its id is returned and the job is entered in
  \<open>running_tasks\<close>, where \<open>POST /api/v1/tasks\<close> rejects the same search with status
  400. And \<open>POST /api/v1/tasks\<close> rejects a search with a keyword on the platform
  \<open>dy\<close>, a name that the description of the request field lists, as it is not a key of
  \<open>PLATFORM_MAPPING\<close>.
\<close>

theorem C8_quick_search_starts_without_keywords:
  "ct_task_type (quick_search_task XHS ''id1'' \<lparr> qs_keywords = [] \<rparr>) = SEARCH
   \<and> not_given (ct_keywords (quick_search_task XHS ''id1'' \<lparr> qs_keywords = [] \<rparr>))
   \<and> fst (xhs_search 0 ''id1'' \<lparr> qs_keywords = [] \<rparr> empty_server) = ''id1''
   \<and> running_tasks (crawler_adapter (snd (xhs_search 0 ''id1'' \<lparr> qs_keywords = [] \<rparr>
                                              empty_server))) ''id1'' = Some Pending
   \<and> fst (douyin_search 0 ''id1'' \<lparr> qs_keywords = [] \<rparr> empty_server) = ''id1''
   \<and> running_tasks (crawler_adapter (snd (douyin_search 0 ''id1'' \<lparr> qs_keywords = [] \<rparr>
                                              empty_server))) ''id1'' = Some Pending
   \<and> create_crawler_task 0 ''id1'' (search_request ''xhs'' (Some [])) empty_server
       = (HTTPException 400, empty_server)
   \<and> target_match (search_request ''dy'' (Some [asc ''a'']))
   \<and> create_crawler_task 0 ''id1'' (search_request ''dy'' (Some [asc ''a''])) empty_server
       = (HTTPException 400, empty_server)"
  by (simp add: quick_search_task_def xhs_search_def douyin_search_def start_crawler_task_def
        create_task_logger_def Let_def not_given_def empty_server_def create_crawler_task_def
        search_request_def PLATFORM_MAPPING_def CrawlerTaskType_of_def target_match_def
        split: prod.splits)

end
